theory Spec2Isabelle
  imports Main "HOL-Library.Log_Nat"
begin

section \<open>Strings and paths\<close>

text \<open>
  \<^verbatim>\<open>path.split('/')\<close> and \<^verbatim>\<open>parts.join('/')\<close> of the source, for a one-character
  separator. As in JavaScript, splitting never yields the empty array: the empty string
  splits into one empty segment.
\<close>

fun js_split :: "char \<Rightarrow> string \<Rightarrow> string list" where
  "js_split c [] = [[]]"
| "js_split c (x # xs) =
     (if x = c then [] # js_split c xs
      else (case js_split c xs of [] \<Rightarrow> [[x]] | y # ys \<Rightarrow> (x # y) # ys))"

fun js_join :: "char \<Rightarrow> string list \<Rightarrow> string" where
  "js_join c [] = []"
| "js_join c [x] = x"
| "js_join c (x # y # ys) = x @ c # js_join c (y # ys)"

abbreviation SEP :: char where
  "SEP \<equiv> CHR ''/''"

text \<open>\<^verbatim>\<open>pathParts.slice(0, -1).join('/')\<close>: the path without its last segment.\<close>

definition parentPathOf :: "string \<Rightarrow> string" where
  "parentPathOf p = js_join SEP (butlast (js_split SEP p))"

section \<open>Numbers\<close>

text \<open>
  A JavaScript \<^verbatim>\<open>number\<close> is an IEEE 754 binary64 value. A finite one is a rational, and
  every arithmetic operation returns the exact result rounded to the nearest value with a
  53-bit significand, ties to the even significand. \<open>fl\<close> is that rounding; results
  below the normal range are rounded on the subnormal grid \<open>2\<^sup>-\<^sup>1\<^sup>0\<^sup>7\<^sup>4\<close>. Infinities and
  NaN are not represented: the model is exact for results of magnitude below \<open>2\<^sup>1\<^sup>0\<^sup>2\<^sup>4\<close>.
\<close>

definition pow2 :: "int \<Rightarrow> rat" where
  "pow2 k = (if 0 \<le> k then 2 ^ nat k else 1 / 2 ^ nat (- k))"

text \<open>\<open>ilog2 x\<close> is the integer \<open>e\<close> with \<open>2\<^sup>e \<le> x < 2\<^sup>e\<^sup>+\<^sup>1\<close>, for \<open>x > 0\<close>.\<close>

definition ilog2 :: "rat \<Rightarrow> int" where
  "ilog2 x =
     (let (n, d) = quotient_of x; k = bitlen n - bitlen d
      in if pow2 k \<le> x then k else k - 1)"

definition round_half_even :: "rat \<Rightarrow> int" where
  "round_half_even y =
     (let f = \<lfloor>y\<rfloor>; r = y - of_int f
      in if r < 1 / 2 then f else if 1 / 2 < r then f + 1
         else if even f then f else f + 1)"

definition fl :: "rat \<Rightarrow> rat" where
  "fl x =
     (if x = 0 then 0
      else (let a = \<bar>x\<bar>; e = max (ilog2 a - 52) (- 1074);
                m = round_half_even (a / pow2 e)
            in sgn x * of_int m * pow2 e))"

text \<open>
  \<^verbatim>\<open>parseInt\<close> of the decimal string of an integer (a BigInt column sent as a string, or
  the \<^verbatim>\<open>toString()\<close> of an integral number): the nearest binary64 value.
\<close>

definition parseInt :: "int \<Rightarrow> rat" where
  "parseInt n = fl (of_int n)"

section \<open>Data model of the spreadsheet page\<close>

record HierarchyDefinition =
  def_level :: nat
  columnName :: string

record Session =
  totalBudget :: int
  hierarchyDefinitions :: "HierarchyDefinition list"

record SkuData =
  skuCode :: string
  unitPrice :: int
  hierarchyValues :: "string \<rightharpoonup> string"

text \<open>
  The client-side allocation entry. \<open>amount\<close> is the decimal string of an integer in the
  source and is kept as that integer here; \<open>period\<close> is \<^verbatim>\<open>string | null\<close>.
\<close>

record Allocation =
  hierarchyPath :: string
  level :: nat
  percentage :: rat
  amount :: int
  quantity :: int
  period :: "string option"

section \<open>Hierarchy Path Model\<close>

text \<open>A value is pushed when it is truthy: present and not the empty string.\<close>

definition truthy_value :: "SkuData \<Rightarrow> HierarchyDefinition \<Rightarrow> string option" where
  "truthy_value sku d =
     (case hierarchyValues sku (columnName d) of
        None \<Rightarrow> None
      | Some v \<Rightarrow> if v = [] then None else Some v)"

definition buildHierarchyPath :: "SkuData \<Rightarrow> HierarchyDefinition list \<Rightarrow> nat \<Rightarrow> string" where
  "buildHierarchyPath sku definitions maxLevel =
     js_join SEP (List.map_filter (truthy_value sku) (take maxLevel definitions))"

section \<open>Cascade Engine\<close>

definition getParentAmount :: "Session option \<Rightarrow> string \<Rightarrow> Allocation list \<Rightarrow> rat" where
  "getParentAmount session path allocs =
     (case session of
        None \<Rightarrow> 0
      | Some s \<Rightarrow>
          (let pathParts = js_split SEP path
           in if length pathParts = 1 then parseInt (totalBudget s)
              else (let parentPath = js_join SEP (butlast pathParts)
                    in case find (\<lambda>a. hierarchyPath a = parentPath) allocs of
                         Some parentAlloc \<Rightarrow> parseInt (amount parentAlloc)
                       | None \<Rightarrow> parseInt (totalBudget s))))"

text \<open>\<^verbatim>\<open>Math.floor(parentAmount * (percentage / 100))\<close>\<close>

definition cascadeAmount :: "rat \<Rightarrow> rat \<Rightarrow> int" where
  "cascadeAmount parentAmount pct = \<lfloor>fl (parentAmount * fl (pct / 100))\<rfloor>"

definition relatedSkus :: "Session \<Rightarrow> SkuData list \<Rightarrow> string \<Rightarrow> SkuData list" where
  "relatedSkus s skus path =
     (let pathLevel = length (js_split SEP path)
      in if pathLevel = length (hierarchyDefinitions s) + 1
         then (let code = last (js_split SEP path) in filter (\<lambda>sku. skuCode sku = code) skus)
         else filter (\<lambda>sku. buildHierarchyPath sku (hierarchyDefinitions s) pathLevel = path) skus)"

text \<open>\<^verbatim>\<open>relatedSkus.reduce((sum, sku) => sum + sku.unitPrice, 0)\<close>\<close>

definition totalUnitPrice :: "SkuData list \<Rightarrow> rat" where
  "totalUnitPrice related = foldl (\<lambda>sum sku. fl (sum + of_int (unitPrice sku))) 0 related"

definition cascadeQuantity :: "int \<Rightarrow> rat \<Rightarrow> int" where
  "cascadeQuantity amt tot = (if 0 < tot then \<lfloor>fl (of_int amt / tot)\<rfloor> else 0)"

fun findIndex :: "('a \<Rightarrow> bool) \<Rightarrow> 'a list \<Rightarrow> nat option" where
  "findIndex P [] = None"
| "findIndex P (x # xs) =
     (if P x then Some 0 else map_option Suc (findIndex P xs))"

definition updateAllocation ::
  "Session option \<Rightarrow> SkuData list \<Rightarrow> Allocation list \<Rightarrow> string \<Rightarrow> string option \<Rightarrow> rat
     \<Rightarrow> Allocation list" where
  "updateAllocation session skus allocations path per pct =
     (case session of
        None \<Rightarrow> allocations
      | Some s \<Rightarrow>
          (let parentAmount = getParentAmount session path allocations;
               amt = cascadeAmount parentAmount pct;
               pathLevel = length (js_split SEP path);
               qty = cascadeQuantity amt (totalUnitPrice (relatedSkus s skus path))
           in case findIndex (\<lambda>a. hierarchyPath a = path \<and> period a = per) allocations of
                Some i \<Rightarrow>
                  allocations[i := (allocations ! i)
                    \<lparr>percentage := pct, amount := amt, quantity := qty\<rparr>]
              | None \<Rightarrow>
                  allocations @
                    [\<lparr>hierarchyPath = path, level = pathLevel, percentage = pct,
                      amount = amt, quantity = qty, period = per\<rparr>]))"

section \<open>Tree Builder\<close>

record PeriodData =
  pd_percentage :: rat
  pd_amount :: rat
  pd_quantity :: int

text \<open>
  A node of the tree. The source's nodes are objects that refer to their children; every
  node is stored in \<^verbatim>\<open>nodeMap\<close> under its path, so the model refers to a node by that
  path: \<open>children\<close> lists the paths of the child nodes in the order they were pushed.
  \<open>nodeUnitPrice\<close> is set on SKU nodes only.
\<close>

record HierarchyNode =
  path :: string
  name :: string
  nlevel :: nat
  nodeUnitPrice :: "int option"
  periodData :: "(string option \<times> PeriodData) list"
  children :: "string list"

text \<open>
  The two mutable structures of \<^verbatim>\<open>buildHierarchyTree\<close>: \<open>tree\<close>, the root nodes in the
  order they were pushed (the value the function returns), and \<open>nodeMap\<close>, the nodes in
  insertion order, each keyed by its path.
\<close>

record build_state =
  tree :: "string list"
  nodeMap :: "HierarchyNode list"

text \<open>\<^verbatim>\<open>Map.prototype.set\<close> on an insertion-ordered map kept as an association list.\<close>

fun map_set :: "'k \<Rightarrow> 'v \<Rightarrow> ('k \<times> 'v) list \<Rightarrow> ('k \<times> 'v) list" where
  "map_set k v [] = [(k, v)]"
| "map_set k v ((k', v') # m) = (if k' = k then (k, v) # m else (k', v') # map_set k v m)"

text \<open>\<^verbatim>\<open>alloc.period || null\<close>: the empty string counts as no period.\<close>

definition period_or_null :: "Allocation \<Rightarrow> string option" where
  "period_or_null a = (case period a of None \<Rightarrow> None | Some p \<Rightarrow> if p = [] then None else Some p)"

definition buildPeriodData :: "Allocation list \<Rightarrow> string \<Rightarrow> (string option \<times> PeriodData) list" where
  "buildPeriodData allocations p =
     foldl (\<lambda>m a. map_set (period_or_null a)
              \<lparr>pd_percentage = percentage a, pd_amount = parseInt (amount a),
               pd_quantity = quantity a\<rparr> m)
       [] (filter (\<lambda>a. hierarchyPath a = p) allocations)"

text \<open>\<^verbatim>\<open>nodeMap.has(path)\<close> and \<^verbatim>\<open>nodeMap.get(path)\<close>\<close>

definition has_node :: "HierarchyNode list \<Rightarrow> string \<Rightarrow> bool" where
  "has_node m p = list_ex (\<lambda>n. path n = p) m"

definition get_node :: "HierarchyNode list \<Rightarrow> string \<Rightarrow> HierarchyNode option" where
  "get_node m p = find (\<lambda>n. path n = p) m"

text \<open>
  \<^verbatim>\<open>const parent = nodeMap.get(parentPath); if (parent) parent.children.push(node)\<close>:
  the node that \<^verbatim>\<open>get\<close> returns is changed in place; nothing happens when there is none.
\<close>

fun push_child :: "string \<Rightarrow> string \<Rightarrow> HierarchyNode list \<Rightarrow> HierarchyNode list" where
  "push_child parentPath c [] = []"
| "push_child parentPath c (n # ns) =
     (if path n = parentPath then n\<lparr>children := children n @ [c]\<rparr> # ns
      else n # push_child parentPath c ns)"

text \<open>One round of the inner loop: hierarchy level \<open>lvl\<close> of one SKU.\<close>

definition addLevel :: "Session \<Rightarrow> Allocation list \<Rightarrow> SkuData \<Rightarrow> build_state \<Rightarrow> nat \<Rightarrow> build_state" where
  "addLevel s allocations sku st lvl =
     (let p = buildHierarchyPath sku (hierarchyDefinitions s) lvl
      in if p = [] then st
         else if has_node (nodeMap st) p then st
         else (let parts = js_split SEP p;
                   node = \<lparr>path = p, name = last parts, nlevel = lvl, nodeUnitPrice = None,
                           periodData = buildPeriodData allocations p, children = []\<rparr>;
                   m = nodeMap st @ [node]
               in if lvl = 1 then st\<lparr>tree := tree st @ [p], nodeMap := m\<rparr>
                  else st\<lparr>nodeMap := push_child (js_join SEP (butlast parts)) p m\<rparr>))"

text \<open>The path of the SKU node: the deepest hierarchy path, then the SKU code.\<close>

definition skuPathOf :: "Session \<Rightarrow> SkuData \<Rightarrow> string" where
  "skuPathOf s sku =
     (let parentPath = buildHierarchyPath sku (hierarchyDefinitions s) (length (hierarchyDefinitions s))
      in if parentPath \<noteq> [] then parentPath @ SEP # skuCode sku else skuCode sku)"

text \<open>One round of the outer loop: the hierarchy levels of one SKU, then its SKU node.\<close>

definition addSku :: "Session \<Rightarrow> Allocation list \<Rightarrow> build_state \<Rightarrow> SkuData \<Rightarrow> build_state" where
  "addSku s allocations st sku =
     (let n = length (hierarchyDefinitions s);
          st1 = foldl (addLevel s allocations sku) st [1 ..< n + 1];
          parentPath = buildHierarchyPath sku (hierarchyDefinitions s) n;
          skuPath = skuPathOf s sku
      in if has_node (nodeMap st1) skuPath then st1
         else (let skuNode = \<lparr>path = skuPath, name = skuCode sku, nlevel = n + 1,
                              nodeUnitPrice = Some (unitPrice sku),
                              periodData = buildPeriodData allocations skuPath, children = []\<rparr>
               in st1\<lparr>nodeMap := push_child parentPath skuPath (nodeMap st1 @ [skuNode])\<rparr>))"

definition buildHierarchyTree :: "Session option \<Rightarrow> SkuData list \<Rightarrow> Allocation list \<Rightarrow> build_state" where
  "buildHierarchyTree session skuData allocations =
     (case session of
        None \<Rightarrow> \<lparr>tree = [], nodeMap = []\<rparr>
      | Some s \<Rightarrow>
          if skuData = [] then \<lparr>tree = [], nodeMap = []\<rparr>
          else foldl (addSku s allocations) \<lparr>tree = [], nodeMap = []\<rparr> skuData)"

text \<open>
  The places that hold a node: the root list, then the child lists of all nodes. The
  forest that \<^verbatim>\<open>buildHierarchyTree\<close> returns is what can be reached from the roots; a
  node whose parent was never created stays in \<open>nodeMap\<close> only.
\<close>

definition all_slots :: "build_state \<Rightarrow> string list" where
  "all_slots st = tree st @ concat (map children (nodeMap st))"

inductive_set forest :: "build_state \<Rightarrow> string set" for st :: build_state where
  root: "p \<in> set (tree st) \<Longrightarrow> p \<in> forest st"
| child: "q \<in> forest st \<Longrightarrow> n \<in> set (nodeMap st) \<Longrightarrow> path n = q \<Longrightarrow> c \<in> set (children n)
          \<Longrightarrow> c \<in> forest st"

text \<open>
  How a child \<open>c\<close> relates to the path \<open>q\<close> of the node it hangs under: an intermediate
  node hangs under its path without the last segment; a SKU node hangs under the deepest
  hierarchy path of its SKU, and its own path is that path, the separator and the SKU code
  (the SKU code alone under the empty path).
\<close>

definition child_ok :: "HierarchyNode list \<Rightarrow> string \<Rightarrow> string \<Rightarrow> bool" where
  "child_ok m q c =
     (\<exists>k \<in> set m. path k = c \<and>
        (case nodeUnitPrice k of
           None \<Rightarrow> q = parentPathOf c \<and> c \<noteq> []
         | Some u \<Rightarrow> c = (if q = [] then name k else q @ SEP # name k)))"

text \<open>What holds of the two structures after every round of the loops.\<close>

definition tree_inv :: "build_state \<Rightarrow> bool" where
  "tree_inv st =
     (distinct (map path (nodeMap st)) \<and> distinct (all_slots st) \<and>
      set (all_slots st) \<subseteq> path ` set (nodeMap st) \<and> [] \<notin> set (tree st) \<and>
      (\<forall>n \<in> set (nodeMap st). \<forall>c \<in> set (children n). child_ok (nodeMap st) (path n) c))"

section \<open>The quantity as the specification words it\<close>

text \<open>
  The path a SKU record derives at a level: the hierarchy path for the levels
  \<open>1..N\<close>, the SKU path (with the SKU code appended) for level \<open>N + 1\<close>.
\<close>

definition derivedPathAt :: "Session \<Rightarrow> SkuData \<Rightarrow> nat \<Rightarrow> string" where
  "derivedPathAt s sku lvl =
     (if lvl = length (hierarchyDefinitions s) + 1 then skuPathOf s sku
      else buildHierarchyPath sku (hierarchyDefinitions s) lvl)"

text \<open>
  The quantity of a node of path \<open>p\<close> and level \<open>lvl\<close> holding \<open>amt\<close>: zero when the unit
  prices of the SKU records whose derived path at that level is \<open>p\<close> sum to zero, the
  floor of the quotient otherwise.
\<close>

definition spec_quantity :: "Session \<Rightarrow> SkuData list \<Rightarrow> string \<Rightarrow> nat \<Rightarrow> int \<Rightarrow> int" where
  "spec_quantity s skus p lvl amt =
     (let tot = sum_list (map unitPrice (filter (\<lambda>sku. derivedPathAt s sku lvl = p) skus))
      in if tot = 0 then 0 else amt div tot)"

section \<open>The persisted store\<close>

text \<open>
  Modelled from the spec: the Prisma schema, which declares the tables that the route
  handlers read and write, is missing. The tables hold the fields the handlers use. An
  allocation is unique per session, hierarchy path and period: the migrations put a unique
  index on (session_id, hierarchy_path, period). No foreign key between period budgets
  and allocations is modelled: the handlers move and delete the allocation rows of a period
  themselves.
\<close>

record AllocationRow =
  row_sessionId :: string
  row_hierarchyPath :: string
  row_level :: int
  row_percentage :: rat
  row_amount :: int
  row_quantity :: int
  row_period :: "string option"

record PeriodBudgetRow =
  pb_sessionId :: string
  pb_period :: "string option"
  pb_budget :: int

record SessionRow =
  session_id :: string
  session_owner :: string

record database =
  db_sessions :: "SessionRow list"
  db_skuData :: "(string \<times> SkuData) list"
  db_hierarchyDefinitions :: "(string \<times> HierarchyDefinition) list"
  db_allocations :: "AllocationRow list"
  db_periodBudgets :: "PeriodBudgetRow list"

text \<open>What a handler answers: its JSON body on success, or a status and a message.\<close>

datatype response =
    PeriodList "string option list"
  | PeriodCreated string nat
  | BudgetedPeriodCreated string int nat
  | PeriodRenamed "string option" string nat
  | PeriodDeleted "string option" nat
  | AllocationsUpdated nat
  | ErrorResponse nat string


text \<open>\<^verbatim>\<open>String.prototype.trim\<close>, on the ASCII white space.\<close>

definition is_space :: "char \<Rightarrow> bool" where
  "is_space c = (c = CHR '' '' \<or> c = CHR 0x09 \<or> c = CHR 0x0A \<or> c = CHR 0x0B \<or> c = CHR 0x0C \<or> c = CHR 0x0D)"

definition trim :: "string \<Rightarrow> string" where
  "trim s = rev (dropWhile is_space (rev (dropWhile is_space s)))"

text \<open>
  \<^verbatim>\<open>!period || typeof period !== 'string' || period.trim() === ''\<close>; a body field that is
  missing or not a string is \<open>None\<close>.
\<close>

definition blank_name :: "string option \<Rightarrow> bool" where
  "blank_name x = (case x of None \<Rightarrow> True | Some s \<Rightarrow> trim s = [])"

text \<open>
  The period of the URL, after \<^verbatim>\<open>decodeURIComponent\<close>: the argument is the decoded
  segment, and the segment \<^verbatim>\<open>null\<close> stands for the default period.
\<close>

definition decode_period :: "string \<Rightarrow> string option" where
  "decode_period s = (if s = ''null'' then None else Some s)"

definition session_exists :: "database \<Rightarrow> string \<Rightarrow> bool" where
  "session_exists db sid = list_ex (\<lambda>s. session_id s = sid) (db_sessions db)"

definition in_period :: "string \<Rightarrow> string option \<Rightarrow> AllocationRow \<Rightarrow> bool" where
  "in_period sid per r = (row_sessionId r = sid \<and> row_period r = per)"

text \<open>\<^verbatim>\<open>prisma.allocation.findMany({ where: { sessionId, period } })\<close>\<close>

definition period_rows :: "database \<Rightarrow> string \<Rightarrow> string option \<Rightarrow> AllocationRow list" where
  "period_rows db sid per = filter (in_period sid per) (db_allocations db)"

text \<open>
  The unique index of the allocations. PostgreSQL holds two rows with a NULL period to be
  distinct, so only rows with a period take part.
\<close>

definition unique_key :: "AllocationRow \<Rightarrow> string \<times> string \<times> string option" where
  "unique_key r = (row_sessionId r, row_hierarchyPath r, row_period r)"

definition unique_ok :: "AllocationRow list \<Rightarrow> bool" where
  "unique_ok rows = distinct (map unique_key (filter (\<lambda>r. row_period r \<noteq> None) rows))"

text \<open>
  \<^verbatim>\<open>createMany\<close> and \<^verbatim>\<open>updateMany\<close> are single statements: when the result would break
  the unique index the statement throws and writes nothing (\<open>None\<close>).
\<close>

definition createMany :: "AllocationRow list \<Rightarrow> database \<Rightarrow> database option" where
  "createMany rows db =
     (if unique_ok (db_allocations db @ rows)
      then Some (db\<lparr>db_allocations := db_allocations db @ rows\<rparr>) else None)"


definition deleteMany_session :: "string \<Rightarrow> database \<Rightarrow> database" where
  "deleteMany_session sid db =
     db\<lparr>db_allocations := filter (\<lambda>r. row_sessionId r \<noteq> sid) (db_allocations db)\<rparr>"

definition deleteMany_period :: "string \<Rightarrow> string option \<Rightarrow> database \<Rightarrow> database" where
  "deleteMany_period sid per db =
     db\<lparr>db_allocations := filter (\<lambda>r. \<not> in_period sid per r) (db_allocations db)\<rparr>"

section \<open>Period Manager: placeholder allocations\<close>

text \<open>\<^verbatim>\<open>Set.prototype.add\<close> on a set kept in insertion order.\<close>

definition set_add :: "'a \<Rightarrow> 'a list \<Rightarrow> 'a list" where
  "set_add x xs = (if x \<in> set xs then xs else xs @ [x])"

text \<open>The values a SKU has in the first \<open>lvl\<close> hierarchy columns.\<close>

definition pathPartsAt :: "SkuData \<Rightarrow> HierarchyDefinition list \<Rightarrow> nat \<Rightarrow> string list" where
  "pathPartsAt sku defs lvl = List.map_filter (truthy_value sku) (take lvl defs)"

text \<open>One round of the loop over the levels of a SKU.\<close>

definition addLevelPath :: "SkuData \<Rightarrow> HierarchyDefinition list \<Rightarrow> string list \<Rightarrow> nat \<Rightarrow> string list" where
  "addLevelPath sku defs paths lvl =
     (let pathParts = pathPartsAt sku defs lvl
      in if length pathParts = lvl then set_add (js_join SEP pathParts) paths else paths)"

definition addSkuPaths :: "HierarchyDefinition list \<Rightarrow> string list \<Rightarrow> SkuData \<Rightarrow> string list" where
  "addSkuPaths defs paths sku = foldl (addLevelPath sku defs) paths [1 ..< length defs + 1]"

definition hierarchyPathsOf :: "SkuData list \<Rightarrow> HierarchyDefinition list \<Rightarrow> string list" where
  "hierarchyPathsOf skus defs = foldl (addSkuPaths defs) [] skus"

text \<open>\<^verbatim>\<open>childrenCount\<close>: for each parent path, the set of the paths below it.\<close>

definition siblings_of :: "(string \<times> string list) list \<Rightarrow> string \<Rightarrow> string list" where
  "siblings_of cc parentPath = (case map_of cc parentPath of None \<Rightarrow> [] | Some sibs \<Rightarrow> sibs)"

definition addChild :: "(string \<times> string list) list \<Rightarrow> string \<Rightarrow> (string \<times> string list) list" where
  "addChild cc p =
     (let parts = js_split SEP p
      in if 1 < length parts
         then (let parentPath = js_join SEP (butlast parts)
               in map_set parentPath (set_add p (siblings_of cc parentPath)) cc)
         else cc)"

definition childrenCountOf :: "string list \<Rightarrow> (string \<times> string list) list" where
  "childrenCountOf paths = foldl addChild [] paths"

definition placeholderPercentage :: "string list \<Rightarrow> string \<Rightarrow> rat" where
  "placeholderPercentage paths p =
     (let parts = js_split SEP p
      in if 1 < length parts
         then (case map_of (childrenCountOf paths) (js_join SEP (butlast parts)) of
                 None \<Rightarrow> 0
               | Some sibs \<Rightarrow> if length sibs = 1 then 100 else 0)
         else if length (filter (\<lambda>q. length (js_split SEP q) = 1) paths) = 1 then 100 else 0)"

definition placeholderAllocations ::
  "string \<Rightarrow> string \<Rightarrow> SkuData list \<Rightarrow> HierarchyDefinition list \<Rightarrow> AllocationRow list" where
  "placeholderAllocations sid periodName skus defs =
     (let paths = hierarchyPathsOf skus defs
      in map (\<lambda>p. \<lparr>row_sessionId = sid, row_hierarchyPath = p,
                    row_level = int (length (js_split SEP p)),
                    row_percentage = placeholderPercentage paths p,
                    row_amount = 0, row_quantity = 0, row_period = Some periodName\<rparr>) paths)"

text \<open>
  The complete hierarchy paths of the SKU data: the joined values of the first \<open>lvl\<close>
  columns, for every SKU and every level at which the SKU has a value in each of them.
\<close>

definition complete_paths :: "SkuData list \<Rightarrow> HierarchyDefinition list \<Rightarrow> string set" where
  "complete_paths skus defs =
     {js_join SEP (pathPartsAt sku defs lvl) | sku lvl.
        sku \<in> set skus \<and> 1 \<le> lvl \<and> lvl \<le> length defs \<and> length (pathPartsAt sku defs lvl) = lvl}"

text \<open>
  A path is the sole child of its parent among \<open>paths\<close> when no other path of more than
  one segment has the same parent path; a path of one segment is the sole top-level node
  when no other path has one segment.
\<close>

definition sole_child :: "string set \<Rightarrow> string \<Rightarrow> bool" where
  "sole_child paths p =
     (if 1 < length (js_split SEP p)
      then {q \<in> paths. 1 < length (js_split SEP q) \<and> parentPathOf q = parentPathOf p} = {p}
      else {q \<in> paths. length (js_split SEP q) = 1} = {p})"

text \<open>The paths of more than one segment below a parent path.\<close>

definition below :: "string list \<Rightarrow> string \<Rightarrow> string set" where
  "below paths pp = {q \<in> set paths. 1 < length (js_split SEP q) \<and> parentPathOf q = pp}"

section \<open>Period Manager: the generation that derives periods from allocation rows\<close>

definition session_skus :: "database \<Rightarrow> string \<Rightarrow> SkuData list" where
  "session_skus db sid = map snd (filter (\<lambda>x. fst x = sid) (db_skuData db))"

text \<open>\<^verbatim>\<open>hierarchyDefinition.findMany({ where: { sessionId }, orderBy: { level: 'asc' } })\<close>\<close>

definition session_defs :: "database \<Rightarrow> string \<Rightarrow> HierarchyDefinition list" where
  "session_defs db sid = sort_key def_level (map snd (filter (\<lambda>x. fst x = sid) (db_hierarchyDefinitions db)))"

text \<open>
  The comparator of the period list: null first, the other keys by \<^verbatim>\<open>localeCompare\<close>,
  which depends on the locale and is a parameter here.
\<close>

fun insert_period :: "(string \<Rightarrow> string \<Rightarrow> bool) \<Rightarrow> string option \<Rightarrow> string option list \<Rightarrow> string option list" where
  "insert_period le x [] = [x]"
| "insert_period le x (y # ys) =
     (if (case (x, y) of (None, _) \<Rightarrow> True | (Some a, None) \<Rightarrow> False | (Some a, Some b) \<Rightarrow> le a b)
      then x # y # ys else y # insert_period le x ys)"

definition sort_periods :: "(string \<Rightarrow> string \<Rightarrow> bool) \<Rightarrow> string option list \<Rightarrow> string option list" where
  "sort_periods le ps = foldr (insert_period le) ps []"

definition GET_periods :: "(string \<Rightarrow> string \<Rightarrow> bool) \<Rightarrow> database \<Rightarrow> string \<Rightarrow> response" where
  "GET_periods le db sid =
     (if \<not> session_exists db sid then ErrorResponse 404 ''Session not found''
      else PeriodList (sort_periods le
             (remdups (map row_period (filter (\<lambda>r. row_sessionId r = sid) (db_allocations db))))))"

definition POST_periods ::
  "database \<Rightarrow> string \<Rightarrow> string option \<Rightarrow> string option \<Rightarrow> response \<times> database" where
  "POST_periods db sid per copyFrom =
     (if blank_name per then (ErrorResponse 400 ''Period name is required'', db)
      else if \<not> session_exists db sid then (ErrorResponse 404 ''Session not found'', db)
      else (let periodName = trim (the per) in
        if period_rows db sid (Some periodName) \<noteq> []
        then (ErrorResponse 409 ''Period already exists'', db)
        else (let sourceAllocations =
                    (case copyFrom of None \<Rightarrow> []
                     | Some src \<Rightarrow> if src = [] then [] else period_rows db sid (Some src))
          in if sourceAllocations \<noteq> []
             then (case createMany (map (\<lambda>r. r\<lparr>row_period := Some periodName\<rparr>) sourceAllocations) db of
                     None \<Rightarrow> (ErrorResponse 500 ''Internal server error'', db)
                   | Some db' \<Rightarrow> (PeriodCreated periodName (length sourceAllocations), db'))
             else (let skuData = session_skus db sid; defs = session_defs db sid
               in if skuData \<noteq> [] \<and> defs \<noteq> []
                  then (let allocations = placeholderAllocations sid periodName skuData defs
                        in if allocations \<noteq> []
                           then (case createMany allocations db of
                                   None \<Rightarrow> (ErrorResponse 500 ''Internal server error'', db)
                                 | Some db' \<Rightarrow> (PeriodCreated periodName 0, db'))
                           else (PeriodCreated periodName 0, db))
                  else (PeriodCreated periodName 0, db)))))"


section \<open>Period Manager: the generation with a budget per period\<close>

definition find_budget :: "database \<Rightarrow> string \<Rightarrow> string option \<Rightarrow> PeriodBudgetRow option" where
  "find_budget db sid per = find (\<lambda>b. pb_sessionId b = sid \<and> pb_period b = per) (db_periodBudgets db)"

definition delete_budget :: "string \<Rightarrow> string option \<Rightarrow> database \<Rightarrow> database" where
  "delete_budget sid per db =
     db\<lparr>db_periodBudgets := filter (\<lambda>b. \<not> (pb_sessionId b = sid \<and> pb_period b = per)) (db_periodBudgets db)\<rparr>"

definition create_budget :: "PeriodBudgetRow \<Rightarrow> database \<Rightarrow> database" where
  "create_budget b db = db\<lparr>db_periodBudgets := db_periodBudgets db @ [b]\<rparr>"


text \<open>
  \<^verbatim>\<open>POST /api/sessions/[id]/periods\<close> with a budget. \<^verbatim>\<open>periodSchema\<close> wants a period of
  1 to 100 characters and a positive integer budget. The budget record is created first,
  as a statement of its own; the allocations are then copied or synthesized as in the
  other generation.
\<close>

definition POST_periods_budgeted ::
  "database \<Rightarrow> string \<Rightarrow> string option \<Rightarrow> int option \<Rightarrow> string option \<Rightarrow> response \<times> database" where
  "POST_periods_budgeted db sid per budget copyFrom =
     (if per = None \<or> budget = None then (ErrorResponse 400 ''Invalid input'', db)
      else (let p = the per; b = the budget in
          if \<not> (1 \<le> length p \<and> length p \<le> 100 \<and> 0 < b)
          then (ErrorResponse 400 ''Invalid input'', db)
          else (let periodName = trim p in
            if \<not> session_exists db sid then (ErrorResponse 404 ''Session not found'', db)
            else if find_budget db sid (Some periodName) \<noteq> None
            then (ErrorResponse 409 ''Period already exists'', db)
            else (let db1 = create_budget
                              \<lparr>pb_sessionId = sid, pb_period = Some periodName, pb_budget = b\<rparr> db;
                      sourceAllocations =
                        (case copyFrom of None \<Rightarrow> []
                         | Some src \<Rightarrow> if src = [] then [] else period_rows db1 sid (Some src))
              in if sourceAllocations \<noteq> []
                 then (case createMany (map (\<lambda>r. r\<lparr>row_period := Some periodName\<rparr>) sourceAllocations) db1 of
                         None \<Rightarrow> (ErrorResponse 500 ''Internal server error'', db1)
                       | Some db' \<Rightarrow>
                           (BudgetedPeriodCreated periodName b (length sourceAllocations), db'))
                 else (let skuData = session_skus db1 sid; defs = session_defs db1 sid
                   in if skuData \<noteq> [] \<and> defs \<noteq> []
                      then (let allocations = placeholderAllocations sid periodName skuData defs
                            in if allocations \<noteq> []
                               then (case createMany allocations db1 of
                                       None \<Rightarrow> (ErrorResponse 500 ''Internal server error'', db1)
                                     | Some db' \<Rightarrow> (BudgetedPeriodCreated periodName b 0, db'))
                               else (BudgetedPeriodCreated periodName b 0, db1))
                      else (BudgetedPeriodCreated periodName b 0, db1))))))"

text \<open>
  There is no usable copy source: \<^verbatim>\<open>copyFrom\<close> is missing or empty, or no row of the
  session carries that period.
\<close>

definition no_copy_source :: "database \<Rightarrow> string \<Rightarrow> string option \<Rightarrow> bool" where
  "no_copy_source db sid copyFrom =
     (case copyFrom of None \<Rightarrow> True | Some src \<Rightarrow> src = [] \<or> period_rows db sid (Some src) = [])"



text \<open>
  \<^verbatim>\<open>DELETE /api/sessions/[id]/periods/[period]\<close>: two statements outside any
  transaction, first the budget record, then the allocation rows. Nothing in the data
  makes the second statement throw; \<open>storage_fails\<close> says that it does (the store cannot be
  reached, say), and the handler then answers 500 from its \<^verbatim>\<open>catch\<close>.
\<close>

definition DELETE_period_budgeted :: "bool \<Rightarrow> database \<Rightarrow> string \<Rightarrow> string \<Rightarrow> response \<times> database" where
  "DELETE_period_budgeted storage_fails db sid per =
     (let actualPeriod = decode_period per
      in if actualPeriod = None then (ErrorResponse 400 ''Cannot delete default period'', db)
         else if \<not> session_exists db sid then (ErrorResponse 404 ''Session not found'', db)
         else (case find_budget db sid actualPeriod of
                 None \<Rightarrow> (ErrorResponse 404 ''Period not found'', db)
               | Some periodBudget \<Rightarrow>
                   (let db1 = delete_budget sid actualPeriod db
                    in if storage_fails then (ErrorResponse 500 ''Internal server error'', db1)
                       else (PeriodDeleted actualPeriod (length (period_rows db1 sid actualPeriod)),
                             deleteMany_period sid actualPeriod db1))))"

section \<open>Saving the allocations of a session\<close>

text \<open>One entry of the request body, as parsed from JSON.\<close>

record AllocationInput =
  inp_hierarchyPath :: string
  inp_level :: int
  inp_percentage :: rat
  inp_amount :: int
  inp_quantity :: int
  inp_period :: "string option"

text \<open>\<^verbatim>\<open>allocationSchema\<close>\<close>

definition valid_input :: "AllocationInput \<Rightarrow> bool" where
  "valid_input a = (0 < inp_level a \<and> 0 \<le> inp_percentage a \<and> inp_percentage a \<le> 100 \<and>
     0 \<le> inp_amount a \<and> 0 \<le> inp_quantity a)"

definition to_row :: "string \<Rightarrow> AllocationInput \<Rightarrow> AllocationRow" where
  "to_row sid a =
     \<lparr>row_sessionId = sid, row_hierarchyPath = inp_hierarchyPath a, row_level = inp_level a,
      row_percentage = inp_percentage a, row_amount = inp_amount a, row_quantity = inp_quantity a,
      row_period = (case inp_period a of None \<Rightarrow> None | Some p \<Rightarrow> if p = [] then None else Some p)\<rparr>"

text \<open>
  \<^verbatim>\<open>PUT /api/sessions/[id]/allocations\<close>. \<open>user\<close> is the id of the signed-in user, if any.
  \<^verbatim>\<open>deleteMany\<close> and \<^verbatim>\<open>createMany\<close> are two statements outside any transaction: when the
  second throws, the handler answers 500 and the first stays.
\<close>

definition PUT_allocations ::
  "database \<Rightarrow> string option \<Rightarrow> string \<Rightarrow> AllocationInput list \<Rightarrow> response \<times> database" where
  "PUT_allocations db user sid allocations =
     (case user of
        None \<Rightarrow> (ErrorResponse 401 ''Unauthorized'', db)
      | Some uid \<Rightarrow>
          (case find (\<lambda>s. session_id s = sid) (db_sessions db) of
             None \<Rightarrow> (ErrorResponse 404 ''Session not found'', db)
           | Some budgetSession \<Rightarrow>
               if session_owner budgetSession \<noteq> uid then (ErrorResponse 403 ''Only the creator can edit'', db)
               else if \<not> list_all valid_input allocations then (ErrorResponse 400 ''Invalid input'', db)
               else (let db1 = deleteMany_session sid db
                     in case createMany (map (to_row sid) allocations) db1 of
                          None \<Rightarrow> (ErrorResponse 500 ''Internal server error'', db1)
                        | Some db2 \<Rightarrow> (AllocationsUpdated (length allocations), db2))))"

section \<open>Export: the cumulative percentage of a period\<close>

definition digit_char :: "int \<Rightarrow> char" where
  "digit_char d = char_of (48 + d)"

text \<open>The decimal digits of a natural number below \<open>10\<^sup>2\<^sup>2\<close>.\<close>

fun decimal_fuel :: "nat \<Rightarrow> int \<Rightarrow> string" where
  "decimal_fuel 0 n = []"
| "decimal_fuel (Suc k) n =
     (if n < 10 then [digit_char n] else decimal_fuel k (n div 10) @ [digit_char (n mod 10)])"

definition decimal :: "int \<Rightarrow> string" where
  "decimal n = decimal_fuel 22 n"

text \<open>
  \<^verbatim>\<open>x.toFixed(4)\<close> for \<open>0 \<le> x < 10\<^sup>2\<^sup>1\<close>: the integer \<open>n\<close> with \<open>n / 10\<^sup>4\<close> nearest to \<open>x\<close>, the
  larger one of two, written with four digits after the point.
\<close>

definition toFixed4 :: "rat \<Rightarrow> string" where
  "toFixed4 x =
     (let n = \<lfloor>x * 10000 + 1 / 2\<rfloor>; f = n mod 10000
      in decimal (n div 10000) @ ''.'' @
         [digit_char (f div 1000), digit_char (f div 100 mod 10),
          digit_char (f div 10 mod 10), digit_char (f mod 10)])"

text \<open>\<^verbatim>\<open>pathParts.slice(0, level).join('/')\<close> for \<open>level = 1 .. pathParts.length\<close>\<close>

definition levelPaths :: "string \<Rightarrow> string list" where
  "levelPaths skuPath =
     (let pathParts = js_split SEP skuPath
      in map (\<lambda>lvl. js_join SEP (take lvl pathParts)) [1 ..< length pathParts + 1])"

text \<open>
  One round of the loop over the levels, on the pair \<^verbatim>\<open>(cumulativePercentage,
  hasAllocation)\<close>; \<open>is_last\<close> says that the level is the last one, where the loop is left
  in either branch.
\<close>

definition exportStep ::
  "Allocation list \<Rightarrow> rat \<times> bool \<Rightarrow> string \<times> bool \<Rightarrow> rat \<times> bool" where
  "exportStep periodAllocations acc lv =
     (let (cumulativePercentage, hasAllocation) = acc; (levelPath, is_last) = lv;
          miss = (if is_last \<and> \<not> hasAllocation then (0, hasAllocation)
                  else (cumulativePercentage, hasAllocation))
      in case find (\<lambda>a. hierarchyPath a = levelPath) periodAllocations of
           None \<Rightarrow> miss
         | Some levelAllocation \<Rightarrow>
             if 0 < percentage levelAllocation
             then (fl (cumulativePercentage * fl (percentage levelAllocation / 100)), True)
             else miss)"

definition mark_last :: "'a list \<Rightarrow> ('a \<times> bool) list" where
  "mark_last xs = zip xs (map (\<lambda>i. Suc i = length xs) [0 ..< length xs])"

definition exportPeriodCell :: "Allocation list \<Rightarrow> string option \<Rightarrow> string \<Rightarrow> string" where
  "exportPeriodCell allAllocations per skuPath =
     (let periodAllocations = filter (\<lambda>a. period a = per) allAllocations;
          (cumulativePercentage, hasAllocation) =
             foldl (exportStep periodAllocations) (1, False) (mark_last (levelPaths skuPath))
      in if 0 < cumulativePercentage \<and> hasAllocation
         then toFixed4 (fl (cumulativePercentage * 100)) else [])"

text \<open>
  The percentage of the allocation found at a level path, when there is one and it is
  positive: the case in which the loop multiplies.
\<close>

definition positive_pct :: "Allocation list \<Rightarrow> string \<Rightarrow> rat option" where
  "positive_pct periodAllocations levelPath =
     (case find (\<lambda>a. hierarchyPath a = levelPath) periodAllocations of
        None \<Rightarrow> None
      | Some a \<Rightarrow> if 0 < percentage a then Some (percentage a) else None)"

section \<open>Example data\<close>

text \<open>
  The session of the specification's example scenario: budget 10,000,000, hierarchy columns
  category and color, two SKUs under category A.
\<close>

definition ex_defs :: "HierarchyDefinition list" where
  "ex_defs = [\<lparr>def_level = 1, columnName = ''category''\<rparr>,
              \<lparr>def_level = 2, columnName = ''color''\<rparr>]"

definition ex_session :: Session where
  "ex_session = \<lparr>totalBudget = 10000000, hierarchyDefinitions = ex_defs\<rparr>"

definition ex_skus :: "SkuData list" where
  "ex_skus =
     [\<lparr>skuCode = ''SKU001'', unitPrice = 1000,
       hierarchyValues = [''category'' \<mapsto> ''A'', ''color'' \<mapsto> ''Red'']\<rparr>,
      \<lparr>skuCode = ''SKU002'', unitPrice = 2000,
       hierarchyValues = [''category'' \<mapsto> ''A'', ''color'' \<mapsto> ''Blue'']\<rparr>]"

text \<open>Category A holds 1,000 in period Q1 and 5,000 in period Q2.\<close>

definition ex_allocs :: "Allocation list" where
  "ex_allocs =
     [\<lparr>hierarchyPath = ''A'', level = 1, percentage = 10, amount = 1000, quantity = 0,
       period = Some ''Q1''\<rparr>,
      \<lparr>hierarchyPath = ''A'', level = 1, percentage = 50, amount = 5000, quantity = 1,
       period = Some ''Q2''\<rparr>]"

text \<open>A SKU without a value for the second hierarchy column, in a session of budget 10,000.\<close>

definition jag_session :: Session where
  "jag_session = \<lparr>totalBudget = 10000, hierarchyDefinitions = ex_defs\<rparr>"

definition jag_skus :: "SkuData list" where
  "jag_skus = [\<lparr>skuCode = ''SKU001'', unitPrice = 1000, hierarchyValues = [''category'' \<mapsto> ''A'']\<rparr>]"

text \<open>
  A store with one session, owned by user u1, without SKU data: two allocation rows in
  period Q1, one in Q2, and a budget record for each of the two periods.
\<close>

definition ex_row :: "string \<Rightarrow> string \<Rightarrow> AllocationRow" where
  "ex_row p per =
     \<lparr>row_sessionId = ''s1'', row_hierarchyPath = p, row_level = 1, row_percentage = 50,
      row_amount = 500, row_quantity = 0, row_period = Some per\<rparr>"

definition ex_db :: database where
  "ex_db =
     \<lparr>db_sessions = [\<lparr>session_id = ''s1'', session_owner = ''u1''\<rparr>],
      db_skuData = [], db_hierarchyDefinitions = [],
      db_allocations = [ex_row ''A'' ''Q1'', ex_row ''B'' ''Q1'', ex_row ''A'' ''Q2''],
      db_periodBudgets =
        [\<lparr>pb_sessionId = ''s1'', pb_period = Some ''Q1'', pb_budget = 1000\<rparr>,
         \<lparr>pb_sessionId = ''s1'', pb_period = Some ''Q2'', pb_budget = 2000\<rparr>]\<rparr>"

text \<open>A request body that names the same path and period twice.\<close>

definition dup_input :: "AllocationInput list" where
  "dup_input =
     [\<lparr>inp_hierarchyPath = ''A'', inp_level = 1, inp_percentage = 40, inp_amount = 400,
       inp_quantity = 0, inp_period = Some ''Q1''\<rparr>,
      \<lparr>inp_hierarchyPath = ''A'', inp_level = 1, inp_percentage = 60, inp_amount = 600,
       inp_quantity = 0, inp_period = Some ''Q1''\<rparr>]"

text \<open>
  Period Q1 with 50 percent on category A, 0 percent on A/Red and no allocation for the
  SKU below.
\<close>

definition ex_export_allocs :: "Allocation list" where
  "ex_export_allocs =
     [\<lparr>hierarchyPath = ''A'', level = 1, percentage = 50, amount = 5000000, quantity = 0,
       period = Some ''Q1''\<rparr>,
      \<lparr>hierarchyPath = ''A/Red'', level = 2, percentage = 0, amount = 0, quantity = 0,
       period = Some ''Q1''\<rparr>]"

text \<open>The store of the example session, with its SKU data and no allocation yet.\<close>

definition sku_db :: database where
  "sku_db =
     \<lparr>db_sessions = [\<lparr>session_id = ''s1'', session_owner = ''u1''\<rparr>],
      db_skuData = map (Pair ''s1'') ex_skus,
      db_hierarchyDefinitions = map (Pair ''s1'') ex_defs,
      db_allocations = [], db_periodBudgets = []\<rparr>"

text \<open>One hierarchy column and a SKU whose code contains the separator.\<close>

definition slash_session :: Session where
  "slash_session =
     \<lparr>totalBudget = 100, hierarchyDefinitions = [\<lparr>def_level = 1, columnName = ''category''\<rparr>]\<rparr>"

definition slash_skus :: "SkuData list" where
  "slash_skus = [\<lparr>skuCode = ''X/Y'', unitPrice = 10, hierarchyValues = [''category'' \<mapsto> ''A'']\<rparr>]"

text \<open>Three hierarchy columns and a SKU without a value in the second one.\<close>

definition gap_session :: Session where
  "gap_session =
     \<lparr>totalBudget = 100,
      hierarchyDefinitions =
        [\<lparr>def_level = 1, columnName = ''category''\<rparr>, \<lparr>def_level = 2, columnName = ''color''\<rparr>,
         \<lparr>def_level = 3, columnName = ''size''\<rparr>]\<rparr>"

definition gap_skus :: "SkuData list" where
  "gap_skus =
     [\<lparr>skuCode = ''SKU001'', unitPrice = 1000,
       hierarchyValues = [''category'' \<mapsto> ''A'', ''size'' \<mapsto> ''L'']\<rparr>]"

section \<open>Basic facts\<close>

lemma js_split_not_Nil: "js_split c s \<noteq> []"
  by (induction s) (auto split: list.splits)

lemma findIndex_Some:
  "findIndex P xs = Some i \<Longrightarrow> i < length xs \<and> P (xs ! i) \<and> (\<forall>j < i. \<not> P (xs ! j))"
proof (induction xs arbitrary: i)
  case Nil
  then show ?case by simp
next
  case (Cons x xs)
  show ?case
  proof (cases "P x")
    case True
    with Cons.prems show ?thesis by simp
  next
    case False
    with Cons.prems obtain k where k: "findIndex P xs = Some k" "i = Suc k"
      by auto
    from Cons.IH [OF k(1)] False k(2) show ?thesis
      by (auto simp: less_Suc_eq_0_disj)
  qed
qed

lemma findIndex_None: "findIndex P xs = None \<longleftrightarrow> (\<forall>x \<in> set xs. \<not> P x)"
  by (induction xs) auto

lemma set_insert_period: "set (insert_period le x ys) = insert x (set ys)"
  by (induction ys) auto

lemma set_sort_periods: "set (sort_periods le ps) = set ps"
  by (induction ps) (auto simp: sort_periods_def set_insert_period)

lemma period_rows_empty_iff:
  "period_rows db sid per = [] \<longleftrightarrow> per \<notin> row_period ` {r \<in> set (db_allocations db). row_sessionId r = sid}"
  by (auto simp: period_rows_def in_period_def filter_empty_conv)



lemma rename_rows_frame:
  "\<not> in_period sid old r \<Longrightarrow> r \<in> set rows \<Longrightarrow>
   r \<in> set (map (\<lambda>r. if in_period sid old r then r\<lparr>row_period := Some new\<rparr> else r) rows)"
  by force

lemma map_filter_append: "List.map_filter f (xs @ ys) = List.map_filter f xs @ List.map_filter f ys"
  by (simp add: List.map_filter_def)

lemma mark_last_snoc: "mark_last (xs @ [x]) = map (\<lambda>y. (y, False)) xs @ [(x, True)]"
  unfolding mark_last_def
  by (rule nth_equalityI) (auto simp: nth_append less_Suc_eq)

lemma exportStep_not_last:
  "exportStep pa (c, h) (lp, False) =
     (case positive_pct pa lp of None \<Rightarrow> (c, h) | Some p \<Rightarrow> (fl (c * fl (p / 100)), True))"
  by (simp add: exportStep_def positive_pct_def split: option.splits)

lemma exportStep_last:
  "exportStep pa (c, h) (lp, True) =
     (case positive_pct pa lp of None \<Rightarrow> (if h then c else 0, h) | Some p \<Rightarrow> (fl (c * fl (p / 100)), True))"
  by (simp add: exportStep_def positive_pct_def split: option.splits)

lemma export_fold_not_last:
  "foldl (exportStep pa) (c, h) (map (\<lambda>y. (y, False)) xs) =
     (foldl (\<lambda>c p. fl (c * fl (p / 100))) c (List.map_filter (positive_pct pa) xs),
      h \<or> List.map_filter (positive_pct pa) xs \<noteq> [])"
  by (induction xs arbitrary: c h)
     (auto simp: exportStep_not_last split: option.splits)

lemma levelPaths_not_Nil: "levelPaths p \<noteq> []"
  using js_split_not_Nil [of SEP p] by (cases "js_split SEP p") (auto simp: levelPaths_def Let_def)

lemma set_set_add: "set (set_add x xs) = insert x (set xs)"
  by (auto simp: set_add_def)

lemma distinct_set_add: "distinct xs \<Longrightarrow> distinct (set_add x xs)"
  by (auto simp: set_add_def)

lemma addSkuPaths_aux:
  "set (foldl (addLevelPath sku defs) paths lvls) =
   set paths \<union> {js_join SEP (pathPartsAt sku defs lvl) | lvl. lvl \<in> set lvls \<and> length (pathPartsAt sku defs lvl) = lvl}"
  "distinct paths \<Longrightarrow> distinct (foldl (addLevelPath sku defs) paths lvls)"
  by (induction lvls arbitrary: paths) (auto simp: addLevelPath_def Let_def set_set_add distinct_set_add)

lemma set_addSkuPaths:
  "set (addSkuPaths defs paths sku) =
     set paths \<union> {js_join SEP (pathPartsAt sku defs lvl) | lvl.
        1 \<le> lvl \<and> lvl \<le> length defs \<and> length (pathPartsAt sku defs lvl) = lvl}"
  unfolding addSkuPaths_def addSkuPaths_aux(1) by auto

lemma distinct_addSkuPaths: "distinct paths \<Longrightarrow> distinct (addSkuPaths defs paths sku)"
  unfolding addSkuPaths_def by (rule addSkuPaths_aux(2))

lemma hierarchyPaths_aux:
  "set (foldl (addSkuPaths defs) paths skus) = set paths \<union> complete_paths skus defs"
  "distinct paths \<Longrightarrow> distinct (foldl (addSkuPaths defs) paths skus)"
  by (induction skus arbitrary: paths)
     (auto simp: set_addSkuPaths distinct_addSkuPaths complete_paths_def)

lemma set_hierarchyPathsOf: "set (hierarchyPathsOf skus defs) = complete_paths skus defs"
  by (simp add: hierarchyPathsOf_def hierarchyPaths_aux(1))

lemma distinct_hierarchyPathsOf: "distinct (hierarchyPathsOf skus defs)"
  by (simp add: hierarchyPathsOf_def hierarchyPaths_aux(2))

lemma map_of_map_set: "map_of (map_set k v m) k' = (if k' = k then Some v else map_of m k')"
  by (induction m) auto

lemma childrenCount_aux:
  assumes "\<And>pp. set (siblings_of cc pp) = below done pp" "\<And>pp. distinct (siblings_of cc pp)"
    "\<And>pp. map_of cc pp = None \<longleftrightarrow> below done pp = {}"
  shows "set (siblings_of (foldl addChild cc paths) pp) = below (done @ paths) pp \<and>
     distinct (siblings_of (foldl addChild cc paths) pp) \<and>
     (map_of (foldl addChild cc paths) pp = None \<longleftrightarrow> below (done @ paths) pp = {})"
  using assms
proof (induction paths arbitrary: cc "done")
  case Nil
  then show ?case by simp
next
  case (Cons p paths)
  have 1: "set (siblings_of (addChild cc p) pp) = below (done @ [p]) pp" for pp
    using Cons.prems(1) [of pp] Cons.prems(1) [of "parentPathOf p"]
    by (auto simp: addChild_def Let_def siblings_of_def map_of_map_set set_set_add below_def parentPathOf_def)
  have 2: "distinct (siblings_of (addChild cc p) pp)" for pp
    using Cons.prems(2) [of pp] Cons.prems(2) [of "parentPathOf p"]
    by (auto simp: addChild_def Let_def siblings_of_def map_of_map_set distinct_set_add parentPathOf_def)
  have 3: "map_of (addChild cc p) pp = None \<longleftrightarrow> below (done @ [p]) pp = {}" for pp
    using Cons.prems(3) [of pp]
    by (auto simp: addChild_def Let_def map_of_map_set below_def parentPathOf_def)
  from Cons.IH [of "addChild cc p" "done @ [p]", OF 1 2 3] show ?case
    by simp
qed

lemma childrenCountOf_props:
  "set (siblings_of (childrenCountOf paths) pp) = below paths pp"
  "distinct (siblings_of (childrenCountOf paths) pp)"
  "map_of (childrenCountOf paths) pp = None \<longleftrightarrow> below paths pp = {}"
  using childrenCount_aux [of "[]" "[]" paths pp]
  by (simp_all add: childrenCountOf_def siblings_of_def below_def)

lemma length_1_iff_set:
  "distinct xs \<Longrightarrow> x \<in> set xs \<Longrightarrow> length xs = 1 \<longleftrightarrow> set xs = {x}"
proof (cases xs)
  case Nil
  then show "x \<in> set xs \<Longrightarrow> ?thesis" by simp
next
  case (Cons y ys)
  assume d: "distinct xs" and m: "x \<in> set xs"
  show ?thesis
  proof
    assume "length xs = 1"
    with Cons m show "set xs = {x}" by simp
  next
    assume s: "set xs = {x}"
    with Cons have "y = x" "set ys \<subseteq> {x}" by auto
    moreover from d Cons have "y \<notin> set ys" by simp
    ultimately have "set ys = {}" by (simp add: subset_singleton_iff) blast
    then have "ys = []" by simp
    with Cons show "length xs = 1" by simp
  qed
qed

lemma placeholderPercentage_sole:
  assumes "distinct paths" "p \<in> set paths"
  shows "placeholderPercentage paths p = (if sole_child (set paths) p then 100 else 0)"
proof (cases "1 < length (js_split SEP p)")
  case True
  let ?pp = "parentPathOf p"
  from True assms(2) have mem: "p \<in> below paths ?pp"
    by (simp add: below_def)
  then obtain sibs where sibs: "map_of (childrenCountOf paths) ?pp = Some sibs"
    using childrenCountOf_props(3) [of paths ?pp] by auto
  then have s: "siblings_of (childrenCountOf paths) ?pp = sibs"
    by (simp add: siblings_of_def)
  from childrenCountOf_props(1,2) [of paths ?pp] s mem
  have "set sibs = below paths ?pp" "distinct sibs" "p \<in> set sibs"
    by auto
  then have "length sibs = 1 \<longleftrightarrow> below paths ?pp = {p}"
    using length_1_iff_set [of sibs p] by simp
  with True sibs show ?thesis
    by (simp add: placeholderPercentage_def Let_def sole_child_def below_def
        flip: parentPathOf_def)
next
  case False
  then have one: "length (js_split SEP p) = 1"
    using js_split_not_Nil [of SEP p] by (cases "js_split SEP p") auto
  let ?tops = "filter (\<lambda>q. length (js_split SEP q) = 1) paths"
  have "distinct ?tops" "p \<in> set ?tops"
    using assms one by auto
  then have "length ?tops = 1 \<longleftrightarrow> set ?tops = {p}"
    by (rule length_1_iff_set)
  moreover have "set ?tops = {q \<in> set paths. length (js_split SEP q) = 1}"
    by auto
  ultimately show ?thesis
    using False by (simp add: placeholderPercentage_def Let_def sole_child_def)
qed

lemma placeholderAllocations_rows:
  "(let rows = placeholderAllocations sid periodName skus defs in
     distinct (map row_hierarchyPath rows) \<and>
     set (map row_hierarchyPath rows) = complete_paths skus defs \<and>
     (\<forall>r \<in> set rows.
        row_sessionId r = sid \<and> row_period r = Some periodName \<and>
        row_amount r = 0 \<and> row_quantity r = 0 \<and>
        row_level r = int (length (js_split SEP (row_hierarchyPath r))) \<and>
        row_percentage r =
          (if sole_child (complete_paths skus defs) (row_hierarchyPath r) then 100 else 0)))"
proof -
  let ?paths = "hierarchyPathsOf skus defs"
  have m: "map row_hierarchyPath (placeholderAllocations sid periodName skus defs) = ?paths"
    by (simp add: placeholderAllocations_def Let_def comp_def)
  show ?thesis
    unfolding Let_def m
    using distinct_hierarchyPathsOf [of skus defs] set_hierarchyPathsOf [of skus defs]
      placeholderPercentage_sole [OF distinct_hierarchyPathsOf, of _ skus defs]
    by (auto simp: placeholderAllocations_def Let_def)
qed

lemma unique_ok_append_placeholders:
  assumes "unique_ok old" "\<forall>r \<in> set old. \<not> in_period sid (Some pn) r"
    "distinct (map row_hierarchyPath rows)"
    "\<forall>r \<in> set rows. row_sessionId r = sid \<and> row_period r = Some pn"
  shows "unique_ok (old @ rows)"
proof -
  have inj: "inj_on unique_key (set rows)"
    using assms(3,4) by (auto simp: inj_on_def unique_key_def distinct_map)
  have "distinct (map unique_key rows)"
    using assms(3) inj by (auto simp: distinct_map)
  moreover have "filter (\<lambda>r. row_period r \<noteq> None) rows = rows"
    using assms(4) by (auto simp: filter_id_conv)
  moreover have "unique_key ` set (filter (\<lambda>r. row_period r \<noteq> None) old) \<inter> unique_key ` set rows = {}"
    using assms(2,4) by (auto simp: unique_key_def in_period_def)
  ultimately show ?thesis
    using assms(1) by (simp add: unique_ok_def)
qed

lemma createMany_placeholders:
  assumes "unique_ok (db_allocations db)" "period_rows db sid (Some pn) = []"
  shows "createMany (placeholderAllocations sid pn skus defs) db =
     Some (db\<lparr>db_allocations := db_allocations db @ placeholderAllocations sid pn skus defs\<rparr>)"
proof -
  have "\<forall>r \<in> set (db_allocations db). \<not> in_period sid (Some pn) r"
    using assms(2) by (auto simp: period_rows_def filter_empty_conv)
  then have "unique_ok (db_allocations db @ placeholderAllocations sid pn skus defs)"
    using placeholderAllocations_rows [of sid pn skus defs] assms(1)
    by (intro unique_ok_append_placeholders [where sid = sid and pn = pn]) (auto simp: Let_def)
  then show ?thesis
    by (simp add: createMany_def)
qed

subsection \<open>The invariant of the tree builder\<close>

lemma push_child_paths [simp]: "map path (push_child pp c m) = map path m"
  by (induction m) auto

lemma push_child_info:
  "(\<lambda>k. (path k, name k, nodeUnitPrice k)) ` set (push_child pp c m) =
   (\<lambda>k. (path k, name k, nodeUnitPrice k)) ` set m"
  by (induction m) auto

lemma child_ok_info:
  "child_ok m q c \<longleftrightarrow>
     (\<exists>(pk, nk, uk) \<in> (\<lambda>k. (path k, name k, nodeUnitPrice k)) ` set m. pk = c \<and>
        (case uk of None \<Rightarrow> q = parentPathOf c \<and> c \<noteq> []
         | Some u \<Rightarrow> c = (if q = [] then nk else q @ SEP # nk)))"
  by (auto simp: child_ok_def)

lemma child_ok_push_child [simp]: "child_ok (push_child pp c' m) q c = child_ok m q c"
  unfolding child_ok_info push_child_info ..

lemma child_ok_append: "child_ok m q c \<Longrightarrow> child_ok (m @ [x]) q c"
  by (auto simp: child_ok_def)

lemma push_child_cases:
  "n' \<in> set (push_child pp c m) \<Longrightarrow>
     n' \<in> set m \<or> (\<exists>n \<in> set m. path n = pp \<and> n' = n\<lparr>children := children n @ [c]\<rparr>)"
  by (induction m) (auto split: if_splits)

lemma push_child_slots_set:
  "set (concat (map children (push_child pp c m))) \<subseteq> insert c (set (concat (map children m)))"
  by (induction m) auto

lemma push_child_slots_distinct:
  "distinct (concat (map children m)) \<Longrightarrow> c \<notin> set (concat (map children m)) \<Longrightarrow>
   distinct (concat (map children (push_child pp c m)))"
proof (induction m)
  case Nil
  then show ?case by simp
next
  case (Cons a m)
  show ?case
  proof (cases "path a = pp")
    case True
    with Cons.prems show ?thesis by auto
  next
    case False
    from Cons have "distinct (concat (map children (push_child pp c m)))"
      by simp
    moreover have "set (children a) \<inter> set (concat (map children (push_child pp c m))) = {}"
      using push_child_slots_set [of pp c m] Cons.prems by auto
    ultimately show ?thesis
      using False Cons.prems by simp
  qed
qed

lemma push_child_path_image [simp]: "path ` set (push_child pp c m) = path ` set m"
  by (induction m) auto

lemma has_node_iff: "has_node m p \<longleftrightarrow> p \<in> path ` set m"
  by (auto simp: has_node_def list_ex_iff)

text \<open>Adding a node that is not yet in the map, and hanging it under a parent path.\<close>

lemma tree_inv_attach:
  assumes inv: "tree_inv st" and new: "path node \<notin> path ` set (nodeMap st)"
    and ch: "children node = []"
    and ok: "child_ok (nodeMap st @ [node]) pp (path node)"
  shows "tree_inv (st\<lparr>nodeMap := push_child pp (path node) (nodeMap st @ [node])\<rparr>)"
proof -
  let ?m = "nodeMap st @ [node]" and ?c = "path node"
  let ?m' = "push_child pp ?c ?m"
  from inv have d: "distinct (map path (nodeMap st))" and ds: "distinct (all_slots st)"
    and sub: "set (all_slots st) \<subseteq> path ` set (nodeMap st)" and ne: "[] \<notin> set (tree st)"
    and rel: "\<forall>n \<in> set (nodeMap st). \<forall>c \<in> set (children n). child_ok (nodeMap st) (path n) c"
    by (auto simp: tree_inv_def)
  from sub new have fresh: "?c \<notin> set (tree st)" "?c \<notin> set (concat (map children (nodeMap st)))"
    by (auto simp: all_slots_def)
  have cm: "concat (map children ?m) = concat (map children (nodeMap st))"
    using ch by simp
  have 1: "distinct (map path ?m')"
    using d new by simp
  have s': "set (concat (map children ?m')) \<subseteq> insert ?c (set (concat (map children (nodeMap st))))"
    using push_child_slots_set [of pp ?c ?m] cm by simp
  have d': "distinct (concat (map children ?m'))"
    using push_child_slots_distinct [of ?m ?c pp] ds fresh cm by (simp add: all_slots_def)
  have 2: "distinct (tree st @ concat (map children ?m'))"
    using ds d' s' fresh by (auto simp: all_slots_def)
  have 3: "set (tree st @ concat (map children ?m')) \<subseteq> path ` set ?m'"
  proof -
    have "path ` set ?m' = insert ?c (path ` set (nodeMap st))" by simp
    then show ?thesis using sub s' by (auto simp: all_slots_def)
  qed
  have 4: "child_ok ?m' (path n') c" if "n' \<in> set ?m'" "c \<in> set (children n')" for n' c
  proof -
    from push_child_cases [OF that(1)] consider
      (old) "n' \<in> set (nodeMap st)" | (new) "n' = node"
      | (par) n where "n \<in> set ?m" "path n = pp" "n' = n\<lparr>children := children n @ [?c]\<rparr>"
      by auto
    then show ?thesis
    proof cases
      case old
      with rel that(2) show ?thesis by (auto intro: child_ok_append)
    next
      case new
      with ch that(2) show ?thesis by simp
    next
      case par
      show ?thesis
      proof (cases "c = ?c")
        case True
        with par ok show ?thesis by simp
      next
        case False
        with par that(2) have c: "c \<in> set (children n)" by simp
        from par(1) ch c have "n \<in> set (nodeMap st)" by auto
        with rel c par show ?thesis by (auto intro: child_ok_append)
      qed
    qed
  qed
  show ?thesis
    using 1 2 3 4 ne by (simp add: tree_inv_def all_slots_def)
qed

lemma tree_inv_root:
  assumes inv: "tree_inv st" and new: "p \<notin> path ` set (nodeMap st)"
    and node: "path node = p" "children node = []" and "p \<noteq> []"
  shows "tree_inv (st\<lparr>tree := tree st @ [p], nodeMap := nodeMap st @ [node]\<rparr>)"
proof -
  from inv have sub: "set (all_slots st) \<subseteq> path ` set (nodeMap st)"
    by (simp add: tree_inv_def)
  with new have "p \<notin> set (all_slots st)" by auto
  with inv new node assms(5) show ?thesis
    by (auto simp: tree_inv_def all_slots_def intro: child_ok_append)
qed

lemma tree_inv_addLevel: "tree_inv st \<Longrightarrow> tree_inv (addLevel s allocations sku st lvl)"
proof -
  assume inv: "tree_inv st"
  let ?p = "buildHierarchyPath sku (hierarchyDefinitions s) lvl"
  let ?node = "\<lparr>path = ?p, name = last (js_split SEP ?p), nlevel = lvl, nodeUnitPrice = None,
     periodData = buildPeriodData allocations ?p, children = []\<rparr>"
  show ?thesis
  proof (cases "?p = [] \<or> has_node (nodeMap st) ?p")
    case True
    with inv show ?thesis by (auto simp: addLevel_def Let_def)
  next
    case False
    then have new: "path ?node \<notin> path ` set (nodeMap st)" and ne: "?p \<noteq> []"
      by (simp_all add: has_node_iff)
    show ?thesis
    proof (cases "lvl = 1")
      case True
      from tree_inv_root [OF inv, of ?p ?node] new ne True False show ?thesis
        by (simp add: addLevel_def Let_def)
    next
      case lvl: False
      have ok: "child_ok (nodeMap st @ [?node]) (parentPathOf ?p) (path ?node)"
        using ne by (simp add: child_ok_def)
      from tree_inv_attach [OF inv new _ ok] lvl False show ?thesis
        by (simp add: addLevel_def Let_def parentPathOf_def)
    qed
  qed
qed

lemma tree_inv_levels: "tree_inv st \<Longrightarrow> tree_inv (foldl (addLevel s allocations sku) st lvls)"
  by (induction lvls arbitrary: st) (simp_all add: tree_inv_addLevel)

lemma tree_inv_addSku: "tree_inv st \<Longrightarrow> tree_inv (addSku s allocations st sku)"
proof -
  assume "tree_inv st"
  let ?n = "length (hierarchyDefinitions s)"
  let ?st1 = "foldl (addLevel s allocations sku) st [1 ..< ?n + 1]"
  let ?pp = "buildHierarchyPath sku (hierarchyDefinitions s) ?n"
  let ?node = "\<lparr>path = skuPathOf s sku, name = skuCode sku, nlevel = ?n + 1,
     nodeUnitPrice = Some (unitPrice sku),
     periodData = buildPeriodData allocations (skuPathOf s sku), children = []\<rparr>"
  have inv: "tree_inv ?st1"
    using \<open>tree_inv st\<close> by (rule tree_inv_levels)
  show ?thesis
  proof (cases "has_node (nodeMap ?st1) (skuPathOf s sku)")
    case True
    with inv show ?thesis by (simp add: addSku_def Let_def)
  next
    case False
    then have new: "path ?node \<notin> path ` set (nodeMap ?st1)"
      by (simp add: has_node_iff)
    have ok: "child_ok (nodeMap ?st1 @ [?node]) ?pp (path ?node)"
      by (simp add: child_ok_def skuPathOf_def Let_def)
    from tree_inv_attach [OF inv new _ ok] False show ?thesis
      by (simp add: addSku_def Let_def)
  qed
qed

lemma tree_inv_skus: "tree_inv st \<Longrightarrow> tree_inv (foldl (addSku s allocations) st skus)"
  by (induction skus arbitrary: st) (simp_all add: tree_inv_addSku)

lemma tree_inv_empty: "tree_inv \<lparr>tree = [], nodeMap = []\<rparr>"
  by (simp add: tree_inv_def all_slots_def)

lemma tree_inv_buildHierarchyTree: "tree_inv (buildHierarchyTree session skus allocations)"
  by (auto simp: buildHierarchyTree_def tree_inv_empty tree_inv_skus split: option.splits)


lemma get_node_distinct:
  "distinct (map path m) \<Longrightarrow> k \<in> set m \<Longrightarrow> get_node m (path k) = Some k"
  by (induction m) (auto simp: get_node_def)

lemma count_list_distinct: "distinct xs \<Longrightarrow> x \<in> set xs \<Longrightarrow> count_list xs x = 1"
  by (induction xs) auto

lemma forest_in_slots: "p \<in> forest st \<Longrightarrow> p \<in> set (all_slots st)"
  by (induction rule: forest.induct) (auto simp: all_slots_def)

lemma forest_not_empty_path:
  assumes "tree_inv st" and "p \<in> forest st"
  shows "p \<noteq> []"
  using assms(2)
proof (induction rule: forest.induct)
  case (root p)
  with assms(1) show ?case by (auto simp: tree_inv_def)
next
  case (child q n c)
  with assms(1) have "child_ok (nodeMap st) q c"
    by (auto simp: tree_inv_def)
  with child.IH show ?case
    by (auto simp: child_ok_def split: option.splits)
qed

lemma js_join_Cons_Cons: "js_join c ((x # y) # zs) = x # js_join c (y # zs)"
  by (cases zs) simp_all

lemma parentPath_shorter_aux:
  "length (js_join c (butlast (js_split c s))) \<le> length s \<and>
   (s \<noteq> [] \<longrightarrow> length (js_join c (butlast (js_split c s))) < length s)"
proof (induction s)
  case Nil
  then show ?case by simp
next
  case (Cons x xs)
  obtain y ys where sp: "js_split c xs = y # ys"
    using js_split_not_Nil [of c xs] by (cases "js_split c xs") auto
  show ?case
  proof (cases "ys = []")
    case True
    with sp show ?thesis by simp
  next
    case False
    then have "xs \<noteq> []" using sp by (cases xs) auto
    with Cons.IH have lt: "length (js_join c (butlast (js_split c xs))) < length xs"
      by simp
    from False sp have bl: "butlast (js_split c xs) = y # butlast ys"
      by simp
    show ?thesis
    proof (cases "x = c")
      case True
      with sp False bl lt show ?thesis by (simp add: js_join_Cons_Cons)
    next
      case neq: False
      with sp False bl lt show ?thesis by (simp add: js_join_Cons_Cons)
    qed
  qed
qed

lemma parentPathOf_shorter: "p \<noteq> [] \<Longrightarrow> length (parentPathOf p) < length p"
  using parentPath_shorter_aux [of SEP p] by (simp add: parentPathOf_def)

subsection \<open>Rounding of integers\<close>

text \<open>
  An integer below \<open>2\<^sup>5\<^sup>3\<close> in magnitude is a binary64 value: rounding leaves it as it is.
  So a percentage of 0 gives the amount 0 and a percentage of 100 gives the parent amount.
\<close>

lemma round_half_even_of_int [simp]: "round_half_even (of_int z) = z"
  by (simp add: round_half_even_def)

lemma ilog2_of_int:
  assumes "0 < n"
  shows "ilog2 (of_int n) = bitlen n - 1"
proof -
  have b1: "bitlen 1 = 1"
    by (simp add: bitlen_alt_def)
  from bitlen_bounds [OF assms] have le: "(2::int) ^ nat (bitlen n - 1) \<le> n"
    by simp
  from assms have "1 \<le> bitlen n"
    by (simp add: bitlen_alt_def)
  moreover have "(2::rat) ^ nat (bitlen n - 1) \<le> of_int n"
    using le by (metis of_int_le_iff of_int_numeral of_int_power)
  ultimately show ?thesis
    by (simp add: ilog2_def b1 pow2_def)
qed

lemma fl_of_pos_int:
  assumes "0 < n" "n < 2 ^ 53"
  shows "fl (of_int n) = of_int n"
proof -
  let ?k = "bitlen n - 1"
  from assms(1) have k0: "0 \<le> ?k"
    by (simp add: bitlen_alt_def)
  from assms(2) have "bitlen n \<le> 53"
    by (simp add: bitlen_le_iff_power)
  then have k52: "?k \<le> 52" by simp
  define m where "m = nat (52 - ?k)"
  have e: "max (ilog2 (of_int n) - 52) (- 1074) = - int m"
    using k0 k52 by (simp add: ilog2_of_int [OF assms(1)] m_def)
  have p: "pow2 (- int m) = 1 / 2 ^ m"
    by (simp add: pow2_def)
  have "(of_int n :: rat) / pow2 (- int m) = of_int (n * 2 ^ m)"
    by (simp add: p)
  then have r: "round_half_even ((of_int n :: rat) / pow2 (- int m)) = n * 2 ^ m"
    by (simp only: round_half_even_of_int)
  have "fl (of_int n) = of_int (n * 2 ^ m) * pow2 (- int m)"
    using assms(1) by (simp add: fl_def Let_def e r)
  also have "\<dots> = of_int n"
    by (simp add: p)
  finally show ?thesis .
qed

lemma fl_zero [simp]: "fl 0 = 0"
  by (simp add: fl_def)

lemma fl_one [simp]: "fl 1 = 1"
  using fl_of_pos_int [of 1] by simp

lemma parseInt_safe: "0 \<le> n \<Longrightarrow> n < 2 ^ 53 \<Longrightarrow> parseInt n = of_int n"
  using fl_of_pos_int [of n] by (cases "n = 0") (simp_all add: parseInt_def)

lemma cascadeAmount_zero: "cascadeAmount A 0 = 0"
  by (simp add: cascadeAmount_def)

lemma cascadeAmount_hundred:
  "0 \<le> b \<Longrightarrow> b < 2 ^ 53 \<Longrightarrow> cascadeAmount (parseInt b) 100 = b"
  by (simp add: cascadeAmount_def parseInt_safe) (simp flip: parseInt_def add: parseInt_safe)

section \<open>Cascade Engine: the entered percentage\<close>

text \<open>
  C9. Entering a percentage for one node and period touches one entry only. Every entry
  whose (hierarchyPath, period) pair differs from the entered one stays at its position,
  unchanged; no entry changes its hierarchyPath, period or level; at most one position
  changes, and the entry there takes the entered percentage; and the list either keeps
  its length or grows by one appended entry that carries the entered path and period, the
  entered percentage, and as level the number of segments of the path.
\<close>

theorem updateAllocation_frame:
  "(let upd = updateAllocation session skus allocations p per pct in
     (\<forall>j < length allocations.
        \<not> (hierarchyPath (allocations ! j) = p \<and> period (allocations ! j) = per) \<longrightarrow>
        upd ! j = allocations ! j) \<and>
     (\<forall>j < length allocations.
        hierarchyPath (upd ! j) = hierarchyPath (allocations ! j) \<and>
        period (upd ! j) = period (allocations ! j) \<and>
        level (upd ! j) = level (allocations ! j)) \<and>
     (\<forall>i < length allocations. \<forall>j < length allocations.
        upd ! i \<noteq> allocations ! i \<longrightarrow> upd ! j \<noteq> allocations ! j \<longrightarrow> i = j) \<and>
     (\<forall>j < length allocations. upd ! j \<noteq> allocations ! j \<longrightarrow> percentage (upd ! j) = pct) \<and>
     (length upd = length allocations \<or>
      length upd = length allocations + 1 \<and>
      list_all (\<lambda>a. \<not> (hierarchyPath a = p \<and> period a = per)) allocations \<and>
      hierarchyPath (last upd) = p \<and> period (last upd) = per \<and>
      percentage (last upd) = pct \<and>
      level (last upd) = length (js_split SEP p)))"
proof (cases session)
  case None
  then show ?thesis by (simp add: updateAllocation_def)
next
  case (Some s)
  show ?thesis
  proof (cases "findIndex (\<lambda>a. hierarchyPath a = p \<and> period a = per) allocations")
    case None
    then have "\<forall>a \<in> set allocations. \<not> (hierarchyPath a = p \<and> period a = per)"
      by (simp add: findIndex_None)
    with None Some show ?thesis
      by (simp add: updateAllocation_def Let_def nth_append list_all_iff)
  next
    case (Some i)
    from findIndex_Some [OF Some]
    have i: "i < length allocations" "hierarchyPath (allocations ! i) = p"
      "period (allocations ! i) = per"
      by auto
    from Some \<open>session = Some s\<close> i show ?thesis
      by (auto simp: updateAllocation_def Let_def nth_list_update)
  qed
qed

theorem updateAllocation_frame_witness:
  "updateAllocation (Some ex_session) ex_skus ex_allocs ''A'' (Some ''Q2'') 60 ! 0 = ex_allocs ! 0"
proof -
  have "\<not> (hierarchyPath (ex_allocs ! 0) = ''A'' \<and> period (ex_allocs ! 0) = Some ''Q2'')"
    by (simp add: ex_allocs_def)
  moreover have "0 < length ex_allocs"
    by (simp add: ex_allocs_def)
  ultimately show ?thesis
    using updateAllocation_frame
      [of "Some ex_session" ex_skus ex_allocs "''A''" "Some ''Q2''" 60]
    by (simp add: Let_def)
qed

text \<open>
  C2. The parent amount is looked up by parent path alone: the period of the entry is not
  compared. With category A holding 1,000 in Q1 and 5,000 in Q2, the parent amount of
  A/Red is 1,000 whatever the period, so that entering 50 percent for A/Red in Q2 stores
  the amount 500 and not 2,500.
\<close>

theorem getParentAmount_takes_other_period:
  "getParentAmount (Some ex_session) ''A/Red'' ex_allocs = 1000 \<and>
   map amount (filter (\<lambda>a. hierarchyPath a = ''A/Red'')
     (updateAllocation (Some ex_session) ex_skus ex_allocs ''A/Red'' (Some ''Q2'') 50)) = [500]"
  by code_simp

text \<open>
  C1. The amount is the floor of the binary64 product of the parent amount and the
  binary64 quotient percentage / 100. With the budget 10,000,000 and 41 percent entered
  for a top-level node the quotient is just below 0.41, the product just below 4,100,000,
  and the stored amount is 4,099,999: one less than the floor of 10,000,000 * 41 / 100.
\<close>

theorem updateAllocation_amount_41_percent:
  "getParentAmount (Some ex_session) ''A'' [] = 10000000 \<and>
   map amount (updateAllocation (Some ex_session) ex_skus [] ''A'' None 41) = [4099999] \<and>
   \<lfloor>(10000000 :: rat) * 41 / 100\<rfloor> = 4100000"
  by code_simp

text \<open>
  C3. The SKU records behind a node are chosen by the number of segments of its path, not
  by its level. SKU001 has no value in the second of two hierarchy columns; the tree holds
  its node A/SKU001 at level 3 with unit price 1000. Entering 100 percent for it stores
  the amount 10,000 and the quantity 0: the path has two segments, so the SKU code is not
  consulted, and no record has A/SKU001 as hierarchy path of depth 2. The unit prices of
  the records whose path at level 3 is A/SKU001 sum to 1000, which gives the quantity 10.
\<close>

theorem updateAllocation_quantity_of_short_sku_path:
  "get_node (nodeMap (buildHierarchyTree (Some jag_session) jag_skus [])) ''A/SKU001'' =
     Some \<lparr>path = ''A/SKU001'', name = ''SKU001'', nlevel = 3, nodeUnitPrice = Some 1000,
           periodData = [], children = []\<rparr> \<and>
   map (\<lambda>a. (amount a, quantity a))
     (updateAllocation (Some jag_session) jag_skus [] ''A/SKU001'' None 100) = [(10000, 0)] \<and>
   spec_quantity jag_session jag_skus ''A/SKU001'' 3 10000 = 10"
  by code_simp

section \<open>Saving allocations is not all-or-nothing\<close>

text \<open>
  C8. The save deletes the rows of the session and then inserts the rows of the request,
  as two separate statements. A request that names the same path and period twice passes
  validation; the insertion breaks the unique index and the handler answers 500, after the
  three stored rows of the session have been deleted. The period delete is two statements
  as well: when the second one fails, the budget record of Q1 is gone and the two rows of
  Q1 are still there.
\<close>

theorem PUT_allocations_failed_insert_keeps_delete:
  "fst (PUT_allocations ex_db (Some ''u1'') ''s1'' dup_input) =
     ErrorResponse 500 ''Internal server error'' \<and>
   db_allocations (snd (PUT_allocations ex_db (Some ''u1'') ''s1'' dup_input)) = [] \<and>
   length (db_allocations ex_db) = 3 \<and>
   fst (DELETE_period_budgeted True ex_db ''s1'' ''Q1'') =
     ErrorResponse 500 ''Internal server error'' \<and>
   find_budget (snd (DELETE_period_budgeted True ex_db ''s1'' ''Q1'')) ''s1'' (Some ''Q1'') = None \<and>
   find_budget ex_db ''s1'' (Some ''Q1'') \<noteq> None \<and>
   length (period_rows (snd (DELETE_period_budgeted True ex_db ''s1'' ''Q1'')) ''s1'' (Some ''Q1'')) = 2"
  by code_simp

section \<open>Period Manager: creation without hierarchy\<close>

text \<open>
  C10. In the generation that derives the period list from the allocation rows: creating
  a period with a usable name, for a session that exists and has no row of that period,
  no SKU data or no hierarchy definitions, and no copy source with rows, answers success
  with copied = 0 and leaves the store as it was; the period list read afterwards does not
  contain the new period.
\<close>

theorem POST_periods_without_hierarchy_inserts_nothing:
  assumes "trim n \<noteq> []" and "session_exists db sid"
    and "period_rows db sid (Some (trim n)) = []"
    and "session_skus db sid = [] \<or> session_defs db sid = []"
    and "no_copy_source db sid copyFrom"
  shows "POST_periods db sid (Some n) copyFrom = (PeriodCreated (trim n) 0, db) \<and>
    (\<exists>ps. GET_periods le (snd (POST_periods db sid (Some n) copyFrom)) sid = PeriodList ps \<and>
          Some (trim n) \<notin> set ps)"
proof -
  have src: "(case copyFrom of None \<Rightarrow> []
       | Some src \<Rightarrow> if src = [] then [] else period_rows db sid (Some src)) = []"
    using assms(5) by (auto simp: no_copy_source_def split: option.splits)
  have post: "POST_periods db sid (Some n) copyFrom = (PeriodCreated (trim n) 0, db)"
    using assms(1-4) src by (auto simp: POST_periods_def blank_name_def Let_def)
  have "Some (trim n) \<notin>
      set (remdups (map row_period (filter (\<lambda>r. row_sessionId r = sid) (db_allocations db))))"
    using assms(3) by (auto simp: period_rows_empty_iff)
  then show ?thesis
    using assms(2) post by (simp add: GET_periods_def set_sort_periods)
qed

theorem POST_periods_without_hierarchy_witness:
  "POST_periods ex_db ''s1'' (Some '' Q3 '') None = (PeriodCreated ''Q3'' 0, ex_db) \<and>
   (\<exists>ps. GET_periods (\<lambda>a b. True) (snd (POST_periods ex_db ''s1'' (Some '' Q3 '') None)) ''s1'' =
           PeriodList ps \<and> Some ''Q3'' \<notin> set ps)"
proof -
  have t: "trim '' Q3 '' = ''Q3''" by code_simp
  have 1: "trim '' Q3 '' \<noteq> []" by code_simp
  have 2: "session_exists ex_db ''s1''" by code_simp
  have 3: "period_rows ex_db ''s1'' (Some (trim '' Q3 '')) = []" by code_simp
  have 4: "session_skus ex_db ''s1'' = [] \<or> session_defs ex_db ''s1'' = []" by code_simp
  have 5: "no_copy_source ex_db ''s1'' None" by (simp add: no_copy_source_def)
  show ?thesis
    using POST_periods_without_hierarchy_inserts_nothing [OF 1 2 3 4 5, of "\<lambda>a b. True"]
    unfolding t .
qed

section \<open>Period Manager: rename\<close>



section \<open>Export: the cumulative percentage\<close>

text \<open>
  C6, as amended. The cell of a SKU and a period multiplies, from the root down to the
  SKU's path, the fractions percentage / 100 of those levels that have an allocation of
  that period with a positive percentage; a level without an allocation, or with
  percentage 0, is skipped. The product, taken in binary64 and times 100, is printed with
  four decimal places. The cell is blank when no level has such an allocation (or when
  the product is not positive).
\<close>

theorem exportPeriodCell_product:
  "exportPeriodCell allAllocations per skuPath =
     (let periodAllocations = filter (\<lambda>a. period a = per) allAllocations;
          pcts = List.map_filter (positive_pct periodAllocations) (levelPaths skuPath);
          c = foldl (\<lambda>c p. fl (c * fl (p / 100))) 1 pcts
      in if pcts \<noteq> [] \<and> 0 < c then toFixed4 (fl (c * 100)) else [])"
proof -
  obtain xs x where lp: "levelPaths skuPath = xs @ [x]"
    using levelPaths_not_Nil [of skuPath] by (metis rev_exhaust)
  show ?thesis
    by (cases "positive_pct (filter (\<lambda>a. period a = per) allAllocations) x")
       (auto simp: exportPeriodCell_def lp mark_last_snoc export_fold_not_last exportStep_last
          map_filter_append Let_def)
qed

text \<open>
  C6 as stated fails: with 50 percent on A, 0 percent on A/Red and no allocation for
  A/Red/SKU001 in Q1, the cell of the SKU is 50.0000 and not blank.
\<close>

theorem exportPeriodCell_counterexample:
  "find (\<lambda>a. hierarchyPath a = ''A/Red/SKU001'' \<and> period a = Some ''Q1'') ex_export_allocs = None \<and>
   map percentage (filter (\<lambda>a. hierarchyPath a = ''A/Red'' \<and> period a = Some ''Q1'') ex_export_allocs) = [0] \<and>
   exportPeriodCell ex_export_allocs (Some ''Q1'') ''A/Red/SKU001'' = ''50.0000''"
  by code_simp

section \<open>Period Manager: placeholder rows\<close>

text \<open>
  C5, as amended. When a period is created without a usable copy source, both
  generations of the handler append one placeholder row for every complete hierarchy path
  of the levels \<open>1..N\<close> (the values of a SKU in the first \<open>L\<close> columns, when it has a value in
  each of them) and for no other path: SKU paths and the paths of SKUs that lack a value
  are not seeded. The store is taken to satisfy its unique index and to hold no row of
  the new period. Each row has amount 0 and quantity 0, the number of segments of its path
  as level, and percentage 100 exactly when its path is the sole child of its parent among
  these paths (or the sole one-segment path), 0 otherwise.
\<close>

theorem POST_periods_seeds_complete_paths:
  assumes "session_exists db sid" and "unique_ok (db_allocations db)"
    and "period_rows db sid (Some (trim n)) = []"
    and "no_copy_source db sid copyFrom"
  defines "rows \<equiv> placeholderAllocations sid (trim n) (session_skus db sid) (session_defs db sid)"
    and "paths \<equiv> complete_paths (session_skus db sid) (session_defs db sid)"
  shows "(trim n \<noteq> [] \<longrightarrow>
            POST_periods db sid (Some n) copyFrom =
              (PeriodCreated (trim n) 0, db\<lparr>db_allocations := db_allocations db @ rows\<rparr>)) \<and>
         (1 \<le> length n \<and> length n \<le> 100 \<and> 0 < b \<and> find_budget db sid (Some (trim n)) = None \<longrightarrow>
            POST_periods_budgeted db sid (Some n) (Some b) copyFrom =
              (BudgetedPeriodCreated (trim n) b 0,
               db\<lparr>db_periodBudgets := db_periodBudgets db @
                     [\<lparr>pb_sessionId = sid, pb_period = Some (trim n), pb_budget = b\<rparr>],
                   db_allocations := db_allocations db @ rows\<rparr>)) \<and>
         distinct (map row_hierarchyPath rows) \<and>
         set (map row_hierarchyPath rows) = paths \<and>
         (\<forall>r \<in> set rows.
            row_sessionId r = sid \<and> row_period r = Some (trim n) \<and>
            row_amount r = 0 \<and> row_quantity r = 0 \<and>
            row_level r = int (length (js_split SEP (row_hierarchyPath r))) \<and>
            row_percentage r = (if sole_child paths (row_hierarchyPath r) then 100 else 0))"
proof -
  have src: "(case copyFrom of None \<Rightarrow> []
       | Some src \<Rightarrow> if src = [] then [] else period_rows db sid (Some src)) = []"
    using assms(4) by (auto simp: no_copy_source_def split: option.splits)
  have cm: "createMany rows db = Some (db\<lparr>db_allocations := db_allocations db @ rows\<rparr>)"
    unfolding rows_def using assms(2,3) by (rule createMany_placeholders)
  have empty: "rows = []" if "session_skus db sid = [] \<or> session_defs db sid = []"
  proof -
    from that have "complete_paths (session_skus db sid) (session_defs db sid) = {}"
      by (auto simp: complete_paths_def)
    then have "hierarchyPathsOf (session_skus db sid) (session_defs db sid) = []"
      by (simp flip: set_hierarchyPathsOf)
    then show ?thesis
      by (simp add: rows_def placeholderAllocations_def)
  qed
  have same: "db\<lparr>db_allocations := db_allocations db @ []\<rparr> = db" for db :: database
    by simp
  have 1: "POST_periods db sid (Some n) copyFrom =
      (PeriodCreated (trim n) 0, db\<lparr>db_allocations := db_allocations db @ rows\<rparr>)"
    if "trim n \<noteq> []"
  proof (cases "session_skus db sid = [] \<or> session_defs db sid = []")
    case True
    with that assms(1,3) src empty [OF True] show ?thesis
      by (auto simp: POST_periods_def blank_name_def Let_def)
  next
    case False
    with that assms(1,3) src cm show ?thesis
      by (simp add: POST_periods_def blank_name_def Let_def flip: rows_def)
  qed
  let ?db1 = "create_budget \<lparr>pb_sessionId = sid, pb_period = Some (trim n), pb_budget = b\<rparr> db"
  have db1: "session_skus ?db1 sid = session_skus db sid" "session_defs ?db1 sid = session_defs db sid"
    "period_rows ?db1 sid per = period_rows db sid per" "db_allocations ?db1 = db_allocations db" for per
    by (simp_all add: create_budget_def session_skus_def session_defs_def period_rows_def)
  have cm1: "createMany rows ?db1 = Some (?db1\<lparr>db_allocations := db_allocations ?db1 @ rows\<rparr>)"
    unfolding rows_def using assms(2,3) db1 by (intro createMany_placeholders) simp_all
  have src1: "(case copyFrom of None \<Rightarrow> []
       | Some src \<Rightarrow> if src = [] then [] else period_rows ?db1 sid (Some src)) = []"
    using src by (cases copyFrom) (auto simp: db1(3) split: if_splits)
  have eq: "?db1\<lparr>db_allocations := db_allocations ?db1 @ rows\<rparr> =
      db\<lparr>db_periodBudgets := db_periodBudgets db @
             [\<lparr>pb_sessionId = sid, pb_period = Some (trim n), pb_budget = b\<rparr>],
           db_allocations := db_allocations db @ rows\<rparr>"
    by (simp add: create_budget_def)
  have 2: "POST_periods_budgeted db sid (Some n) (Some b) copyFrom =
      (BudgetedPeriodCreated (trim n) b 0,
       db\<lparr>db_periodBudgets := db_periodBudgets db @
             [\<lparr>pb_sessionId = sid, pb_period = Some (trim n), pb_budget = b\<rparr>],
           db_allocations := db_allocations db @ rows\<rparr>)"
    if "1 \<le> length n \<and> length n \<le> 100 \<and> 0 < b \<and> find_budget db sid (Some (trim n)) = None"
  proof (cases "session_skus db sid = [] \<or> session_defs db sid = []")
    case True
    with that assms(1) empty [OF True] show ?thesis
      unfolding eq [symmetric]
      by (auto simp: POST_periods_budgeted_def Let_def src1 db1(1,2,4))
  next
    case False
    with that assms(1) show ?thesis
      unfolding eq [symmetric]
      by (simp add: POST_periods_budgeted_def Let_def src1 db1(1,2) cm1 flip: rows_def)
  qed
  show ?thesis
    using 1 2 placeholderAllocations_rows [of sid "trim n" "session_skus db sid" "session_defs db sid"]
    by (simp add: Let_def rows_def paths_def)
qed

theorem POST_periods_seeds_witness:
  "POST_periods sku_db ''s1'' (Some ''Q3'') None =
     (PeriodCreated ''Q3'' 0,
      sku_db\<lparr>db_allocations := db_allocations sku_db @
        placeholderAllocations ''s1'' ''Q3'' (session_skus sku_db ''s1'') (session_defs sku_db ''s1'')\<rparr>) \<and>
   POST_periods_budgeted sku_db ''s1'' (Some ''Q3'') (Some 5000) None =
     (BudgetedPeriodCreated ''Q3'' 5000 0,
      sku_db\<lparr>db_periodBudgets := db_periodBudgets sku_db @
          [\<lparr>pb_sessionId = ''s1'', pb_period = Some ''Q3'', pb_budget = 5000\<rparr>],
        db_allocations := db_allocations sku_db @
        placeholderAllocations ''s1'' ''Q3'' (session_skus sku_db ''s1'') (session_defs sku_db ''s1'')\<rparr>) \<and>
   set (map row_hierarchyPath
     (placeholderAllocations ''s1'' ''Q3'' (session_skus sku_db ''s1'') (session_defs sku_db ''s1''))) =
     complete_paths (session_skus sku_db ''s1'') (session_defs sku_db ''s1'')"
proof -
  have t: "trim ''Q3'' = ''Q3''" by code_simp
  have 1: "session_exists sku_db ''s1''" by code_simp
  have 2: "unique_ok (db_allocations sku_db)" by code_simp
  have 3: "period_rows sku_db ''s1'' (Some (trim ''Q3'')) = []" by code_simp
  have 4: "no_copy_source sku_db ''s1'' None" by (simp add: no_copy_source_def)
  have 7: "find_budget sku_db ''s1'' (Some ''Q3'') = None" by code_simp
  from POST_periods_seeds_complete_paths [OF 1 2 3 4, of 5000, unfolded t] 7
  show ?thesis
    by simp
qed

text \<open>
  C5 as stated fails: the SKU path A/Red/SKU001 is a path of the current SKU data, a node
  of the tree built from it, and no row is seeded for it. Nor is a row seeded for the
  hierarchy path A/L that a SKU without a color derives at level 3: the only row of that
  SKU data is the one for A.
\<close>

theorem POST_periods_seeds_counterexample:
  "skuPathOf ex_session (hd ex_skus) = ''A/Red/SKU001'' \<and>
   has_node (nodeMap (buildHierarchyTree (Some ex_session) ex_skus [])) ''A/Red/SKU001'' \<and>
   session_skus sku_db ''s1'' \<noteq> [] \<and> session_defs sku_db ''s1'' = ex_defs \<and>
   map row_hierarchyPath (db_allocations (snd (POST_periods sku_db ''s1'' (Some ''Q3'') None))) =
     [''A'', ''A/Red'', ''A/Blue''] \<and>
   buildHierarchyPath (hd gap_skus) (hierarchyDefinitions gap_session) 3 = ''A/L'' \<and>
   map (\<lambda>n. (path n, nlevel n, children n))
     (nodeMap (buildHierarchyTree (Some gap_session) gap_skus [])) =
     [(''A'', 1, [''A/L'']), (''A/L'', 3, [''A/L/SKU001'']), (''A/L/SKU001'', 4, [])] \<and>
   map row_hierarchyPath
     (placeholderAllocations ''s1'' ''Q3'' gap_skus (hierarchyDefinitions gap_session)) = [''A'']"
  by code_simp

section \<open>Tree Builder: the forest\<close>

text \<open>
  C4, as amended. For every session, SKU list and allocation list, the structure that
  the Tree Builder leaves has one node per path, and no node is held twice: the root list
  and the child lists together name each path at most once, and a path of the forest
  exactly once. A child is longer than the path it hangs under. Under a parent of the
  forest, an intermediate node hangs under its own path without the last segment, and a
  SKU node has the parent's path, the separator and the SKU code as its path.
\<close>

theorem buildHierarchyTree_forest:
  "(let st = buildHierarchyTree session skus allocations in
     distinct (map path (nodeMap st)) \<and> distinct (all_slots st) \<and>
     (\<forall>p \<in> forest st.
        count_list (all_slots st) p = 1 \<and> count_list (map path (nodeMap st)) p = 1) \<and>
     (\<forall>q \<in> forest st. \<forall>n \<in> set (nodeMap st). \<forall>c \<in> set (children n). path n = q \<longrightarrow>
        length q < length c \<and>
        (\<exists>k. get_node (nodeMap st) c = Some k \<and>
           (case nodeUnitPrice k of
              None \<Rightarrow> q = parentPathOf c
            | Some u \<Rightarrow> c = q @ SEP # name k))))"
proof -
  define st where "st = buildHierarchyTree session skus allocations"
  have inv: "tree_inv st"
    unfolding st_def by (rule tree_inv_buildHierarchyTree)
  then have d: "distinct (map path (nodeMap st))" and ds: "distinct (all_slots st)"
    and sub: "set (all_slots st) \<subseteq> path ` set (nodeMap st)"
    by (auto simp: tree_inv_def)
  have once: "count_list (all_slots st) p = 1 \<and> count_list (map path (nodeMap st)) p = 1"
    if "p \<in> forest st" for p
  proof -
    from that have "p \<in> set (all_slots st)" by (rule forest_in_slots)
    moreover from this sub have "p \<in> set (map path (nodeMap st))" by auto
    ultimately show ?thesis
      using d ds by (simp add: count_list_distinct)
  qed
  have edge: "length q < length c \<and> (\<exists>k. get_node (nodeMap st) c = Some k \<and>
           (case nodeUnitPrice k of None \<Rightarrow> q = parentPathOf c | Some u \<Rightarrow> c = q @ SEP # name k))"
    if "q \<in> forest st" "n \<in> set (nodeMap st)" "c \<in> set (children n)" "path n = q" for q n c
  proof -
    from inv that(1) have q: "q \<noteq> []" by (rule forest_not_empty_path)
    from inv that(2-4) have "child_ok (nodeMap st) q c"
      by (auto simp: tree_inv_def)
    then obtain k where k: "k \<in> set (nodeMap st)" "path k = c"
      "case nodeUnitPrice k of None \<Rightarrow> q = parentPathOf c \<and> c \<noteq> []
       | Some u \<Rightarrow> c = (if q = [] then name k else q @ SEP # name k)"
      by (auto simp: child_ok_def)
    from get_node_distinct [OF d k(1)] k(2) have g: "get_node (nodeMap st) c = Some k"
      by simp
    from k(3) q have "length q < length c"
      by (auto split: option.splits intro: parentPathOf_shorter)
    with g k(3) q show ?thesis
      by (auto split: option.splits)
  qed
  show ?thesis
    unfolding Let_def st_def [symmetric] using d ds once edge by blast
qed

theorem buildHierarchyTree_forest_witness:
  "count_list (all_slots (buildHierarchyTree (Some ex_session) ex_skus ex_allocs)) ''A/Red'' = 1 \<and>
   length ''A'' < length ''A/Red'' \<and>
   (\<exists>k. get_node (nodeMap (buildHierarchyTree (Some ex_session) ex_skus ex_allocs)) ''A/Red'' = Some k \<and>
      (case nodeUnitPrice k of None \<Rightarrow> ''A'' = parentPathOf ''A/Red''
       | Some u \<Rightarrow> ''A/Red'' = ''A'' @ SEP # name k))"
proof -
  let ?st = "buildHierarchyTree (Some ex_session) ex_skus ex_allocs"
  have r: "''A'' \<in> set (tree ?st)" by code_simp
  have n: "hd (nodeMap ?st) \<in> set (nodeMap ?st)" "path (hd (nodeMap ?st)) = ''A''"
    "''A/Red'' \<in> set (children (hd (nodeMap ?st)))"
    by code_simp+
  have a: "''A'' \<in> forest ?st"
    using r by (rule forest.root)
  have c: "''A/Red'' \<in> forest ?st"
    using a n by (rule forest.child)
  from buildHierarchyTree_forest [of "Some ex_session" ex_skus ex_allocs] a c n
  show ?thesis
    unfolding Let_def by blast
qed

text \<open>
  C4 as stated fails for a SKU code that contains the separator: the SKU X/Y of category
  A hangs under the root A with the path A/X/Y, whose path without the last segment is
  A/X.
\<close>

theorem buildHierarchyTree_parent_counterexample:
  "tree (buildHierarchyTree (Some slash_session) slash_skus []) = [''A''] \<and>
   map children (filter (\<lambda>n. path n = ''A'')
     (nodeMap (buildHierarchyTree (Some slash_session) slash_skus []))) = [[''A/X/Y'']] \<and>
   parentPathOf ''A/X/Y'' = ''A/X''"
  by code_simp

end
